theory Spec2Isabelle
  imports Complex_Main
begin

section \<open>JavaScript numbers\<close>

text \<open>
  A JavaScript \<^verbatim>\<open>number\<close> is an IEEE-754 double: a finite value, an infinity or
  \<^verbatim>\<open>NaN\<close>. The model writes a finite double as the real number it denotes and keeps the
  special values apart. There is one zero (read as \<^verbatim>\<open>+0\<close>): the sign of a zero is not
  modelled.
\<close>

datatype number = Fin real | PInf | NInf | NaN

fun isNaN :: "number \<Rightarrow> bool" where
  "isNaN NaN = True"
| "isNaN _ = False"

subsection \<open>Rounding\<close>

text \<open>
  The result of an arithmetic operation on finite doubles is the exact result rounded to the
  nearest double, a tie going to the double with the even significand, and an infinity when
  the rounded magnitude reaches \<open>2\<^sup>1\<^sup>0\<^sup>2\<^sup>4\<close>. The doubles next to a real \<open>x\<close> are the multiples of
  \<open>2\<^sup>e\<close>, where \<open>e\<close> is \<open>\<lfloor>log\<^sub>2 \<bar>x\<bar>\<rfloor> - 52\<close> in the normal range and \<open>-1074\<close> below it.
\<close>

definition round_even :: "real \<Rightarrow> int" where
  "round_even y =
     (if y - of_int \<lfloor>y\<rfloor> < 1 / 2 then \<lfloor>y\<rfloor>
      else if 1 / 2 < y - of_int \<lfloor>y\<rfloor> then \<lfloor>y\<rfloor> + 1
      else if even \<lfloor>y\<rfloor> then \<lfloor>y\<rfloor> else \<lfloor>y\<rfloor> + 1)"

definition ulp_exponent :: "real \<Rightarrow> int" where
  "ulp_exponent x = (if \<bar>x\<bar> < 2 powr (- 1022) then - 1074 else \<lfloor>log 2 \<bar>x\<bar>\<rfloor> - 52)"

definition fl :: "real \<Rightarrow> number" where
  "fl x =
     (let u = 2 powr (of_int (ulp_exponent x));
          r = of_int (round_even (x / u)) * u
      in if 2 ^ 1024 \<le> \<bar>r\<bar> then (if 0 < x then PInf else NInf) else Fin r)"

subsection \<open>Arithmetic\<close>

fun js_neg :: "number \<Rightarrow> number" where
  "js_neg (Fin a) = Fin (- a)"
| "js_neg PInf = NInf"
| "js_neg NInf = PInf"
| "js_neg NaN = NaN"

fun js_add :: "number \<Rightarrow> number \<Rightarrow> number" where
  "js_add (Fin a) (Fin b) = fl (a + b)"
| "js_add NaN _ = NaN"
| "js_add _ NaN = NaN"
| "js_add PInf NInf = NaN"
| "js_add NInf PInf = NaN"
| "js_add PInf _ = PInf"
| "js_add _ PInf = PInf"
| "js_add NInf _ = NInf"
| "js_add _ NInf = NInf"

definition js_sub :: "number \<Rightarrow> number \<Rightarrow> number" where
  "js_sub a b = js_add a (js_neg b)"

fun js_mul :: "number \<Rightarrow> number \<Rightarrow> number" where
  "js_mul (Fin a) (Fin b) = fl (a * b)"
| "js_mul NaN _ = NaN"
| "js_mul _ NaN = NaN"
| "js_mul PInf (Fin b) = (if b = 0 then NaN else if 0 < b then PInf else NInf)"
| "js_mul NInf (Fin b) = (if b = 0 then NaN else if 0 < b then NInf else PInf)"
| "js_mul (Fin a) PInf = (if a = 0 then NaN else if 0 < a then PInf else NInf)"
| "js_mul (Fin a) NInf = (if a = 0 then NaN else if 0 < a then NInf else PInf)"
| "js_mul PInf PInf = PInf"
| "js_mul PInf NInf = NInf"
| "js_mul NInf PInf = NInf"
| "js_mul NInf NInf = PInf"

fun js_div :: "number \<Rightarrow> number \<Rightarrow> number" where
  "js_div (Fin a) (Fin b) =
     (if b = 0 then (if a = 0 then NaN else if 0 < a then PInf else NInf) else fl (a / b))"
| "js_div NaN _ = NaN"
| "js_div _ NaN = NaN"
| "js_div (Fin a) PInf = Fin 0"
| "js_div (Fin a) NInf = Fin 0"
| "js_div PInf (Fin b) = (if 0 \<le> b then PInf else NInf)"
| "js_div NInf (Fin b) = (if 0 \<le> b then NInf else PInf)"
| "js_div PInf PInf = NaN"
| "js_div PInf NInf = NaN"
| "js_div NInf PInf = NaN"
| "js_div NInf NInf = NaN"

text \<open>\<^verbatim>\<open>a < b\<close> and \<^verbatim>\<open>a > b\<close>: false whenever an operand is \<^verbatim>\<open>NaN\<close>.\<close>

fun js_lt :: "number \<Rightarrow> number \<Rightarrow> bool" where
  "js_lt NaN _ = False"
| "js_lt _ NaN = False"
| "js_lt (Fin a) (Fin b) = (a < b)"
| "js_lt _ NInf = False"
| "js_lt NInf _ = True"
| "js_lt PInf _ = False"
| "js_lt _ PInf = True"

definition js_gt :: "number \<Rightarrow> number \<Rightarrow> bool" where
  "js_gt a b = js_lt b a"

text \<open>
  The functions of \<^verbatim>\<open>Math\<close>. \<^verbatim>\<open>floor\<close>, \<^verbatim>\<open>abs\<close> and \<^verbatim>\<open>sign\<close> are exact. The others are
  taken to be correctly rounded; an engine may differ from that in the last bit of a finite
  result (the language asks for an approximation only), and no property below rests on that
  bit.
\<close>

fun Math_floor :: "number \<Rightarrow> number" where
  "Math_floor (Fin a) = Fin (of_int \<lfloor>a\<rfloor>)"
| "Math_floor x = x"

fun Math_abs :: "number \<Rightarrow> number" where
  "Math_abs (Fin a) = Fin \<bar>a\<bar>"
| "Math_abs NaN = NaN"
| "Math_abs _ = PInf"

fun Math_sign :: "number \<Rightarrow> number" where
  "Math_sign (Fin a) = Fin (sgn a)"
| "Math_sign PInf = Fin 1"
| "Math_sign NInf = Fin (- 1)"
| "Math_sign NaN = NaN"

fun Math_sin :: "number \<Rightarrow> number" where
  "Math_sin (Fin a) = fl (sin a)"
| "Math_sin _ = NaN"

fun Math_cos :: "number \<Rightarrow> number" where
  "Math_cos (Fin a) = fl (cos a)"
| "Math_cos _ = NaN"

fun Math_exp :: "number \<Rightarrow> number" where
  "Math_exp (Fin a) = fl (exp a)"
| "Math_exp PInf = PInf"
| "Math_exp NInf = Fin 0"
| "Math_exp NaN = NaN"

fun Math_log :: "number \<Rightarrow> number" where
  "Math_log (Fin a) = (if a < 0 then NaN else if a = 0 then NInf else fl (ln a))"
| "Math_log PInf = PInf"
| "Math_log _ = NaN"

fun Math_sqrt :: "number \<Rightarrow> number" where
  "Math_sqrt (Fin a) = (if a < 0 then NaN else fl (sqrt a))"
| "Math_sqrt PInf = PInf"
| "Math_sqrt _ = NaN"

text \<open>\<^verbatim>\<open>Math.pow(x, 2)\<close>, the only exponent the modelled functions use.\<close>

fun Math_pow_2 :: "number \<Rightarrow> number" where
  "Math_pow_2 (Fin a) = fl (a * a)"
| "Math_pow_2 NaN = NaN"
| "Math_pow_2 _ = PInf"

definition Math_PI :: number where
  "Math_PI = fl pi"

text \<open>
  An integer loop counter or array length, read as a number (an array has fewer than
  \<open>2\<^sup>5\<^sup>3\<close> elements, so the value is a double).
\<close>

definition num :: "nat \<Rightarrow> number" where
  "num n = Fin (real n)"

text \<open>
  Reading \<^verbatim>\<open>a[i]\<close> in arithmetic: an index past the end gives \<^verbatim>\<open>undefined\<close>, which an
  arithmetic operator converts to \<^verbatim>\<open>NaN\<close>.
\<close>

definition elem :: "number list \<Rightarrow> nat \<Rightarrow> number" where
  "elem a i = (if i < length a then a ! i else NaN)"

section \<open>Errors and results (types/index.ts)\<close>

datatype error_type = validation | computation | runtime | memory

text \<open>
  \<^verbatim>\<open>SimulationError(message, type, originalError)\<close> is the repository's classified error;
  \<^verbatim>\<open>Error\<close>, \<^verbatim>\<open>TypeError\<close> and \<^verbatim>\<open>RangeError\<close> are the JavaScript errors the code throws
  itself or provokes in the runtime (their message texts follow V8 and are not part of
  any property below).
\<close>

datatype error =
    SimulationError string error_type "error option"
  | Error string
  | TypeError string
  | RangeError string

fun message :: "error \<Rightarrow> string" where
  "message (SimulationError m t c) = m"
| "message (Error m) = m"
| "message (TypeError m) = m"
| "message (RangeError m) = m"

fun errorType :: "error \<Rightarrow> error_type option" where
  "errorType (SimulationError m t c) = Some t"
| "errorType _ = None"

text \<open>
  \<^verbatim>\<open>SimulationResult<T>\<close>. The field \<^verbatim>\<open>computationTime\<close> is a wall-clock reading
  (\<^verbatim>\<open>performance.now()\<close>) and is left out.
\<close>

record ResultMetadata =
  memoryUsed :: number
  precision :: nat
  success :: bool

record 'a SimulationResult =
  data :: 'a
  metadata :: ResultMetadata

section \<open>The JavaScript engine\<close>

text \<open>
  The values \<^verbatim>\<open>JSON.parse\<close> returns. A \<^verbatim>\<open>Matrix\<close> that the workspace builds holds such
  values: its constructor checks the shape of the grid, not the entries.
\<close>

datatype json =
    JNull
  | JBool bool
  | JNumber number
  | JString string
  | JArray "json list"
  | JObject "(string \<times> json) list"

text \<open>
  Four functions of the engine are parameters of the model: \<^verbatim>\<open>Number(s)\<close> on a string,
  \<^verbatim>\<open>String(x)\<close> on a number, \<^verbatim>\<open>JSON.parse(s)\<close> (\<open>None\<close>: it throws a
  \<^verbatim>\<open>SyntaxError\<close>), and whether a \<^verbatim>\<open>Float64Array\<close> of a given length can be allocated
  (an engine has a largest length and a finite memory). Every property below holds for all
  of them.
\<close>

record JsRuntime =
  rt_Number :: "string \<Rightarrow> number"
  rt_String :: "number \<Rightarrow> string"
  rt_JSON_parse :: "string \<Rightarrow> json option"
  rt_canAllocate :: "nat \<Rightarrow> bool"

section \<open>Matrix.ts\<close>

text \<open>
  The class has one private field, the grid. \<^verbatim>\<open>Matrix.ts\<close> holds two listings of the
  class; the first (lines 1-84) classifies its errors and returns a
  \<^verbatim>\<open>SimulationResult\<close>, the second (lines 85-183) throws plain \<^verbatim>\<open>Error\<close>s and has
  \<^verbatim>\<open>transpose\<close>. Functions of the second listing carry the suffix \<open>2\<close> where the names
  clash.
\<close>

datatype 'a Matrix = Matrix (matrixData: "'a list list")

subsection \<open>First listing\<close>

text \<open>
  \<^verbatim>\<open>validateData\<close> on a grid that is an array of arrays (what the type \<^verbatim>\<open>number[][]\<close>
  admits): \<^verbatim>\<open>data[0]\<close> must exist and every row must have its length.
\<close>

definition Matrix_validateData :: "'a list list \<Rightarrow> error + unit" where
  "Matrix_validateData d =
     (case d of
        [] \<Rightarrow> Inl (SimulationError ''Invalid matrix data: expected 2D array'' validation None)
      | row0 # _ \<Rightarrow>
          if \<not> list_all (\<lambda>row. length row = length row0) d
          then Inl (SimulationError ''Invalid matrix data: rows must have equal length''
                      validation None)
          else Inr ())"

definition new_Matrix :: "'a list list \<Rightarrow> error + 'a Matrix" where
  "new_Matrix d = (case Matrix_validateData d of Inl e \<Rightarrow> Inl e | Inr _ \<Rightarrow> Inr (Matrix d))"

text \<open>
  The body of the \<^verbatim>\<open>try\<close> block of \<^verbatim>\<open>multiply\<close>. The loops write \<^verbatim>\<open>result[i][j]\<close> into
  the zero-filled \<^verbatim>\<open>m\<close> by \<^verbatim>\<open>n\<close> array; \<^verbatim>\<open>this.data[0]\<close> and \<^verbatim>\<open>other.data[0]\<close> of an
  empty grid are \<^verbatim>\<open>undefined\<close>, whose \<^verbatim>\<open>length\<close> is a \<^verbatim>\<open>TypeError\<close>.
\<close>

definition multiply_sum :: "number list list \<Rightarrow> number list list \<Rightarrow> nat \<Rightarrow> nat \<Rightarrow> nat \<Rightarrow> number" where
  "multiply_sum a b p i j =
     foldl (\<lambda>acc_sum k. js_add acc_sum (js_mul (elem (a ! i) k) (elem (b ! k) j))) (Fin 0) [0..<p]"

definition multiply_loops :: "number list list \<Rightarrow> number list list \<Rightarrow> nat \<Rightarrow> nat \<Rightarrow> nat \<Rightarrow>
    number list list \<Rightarrow> number list list" where
  "multiply_loops a b m n p result =
     foldl (\<lambda>res i. foldl (\<lambda>res j. res[i := (res ! i)[j := multiply_sum a b p i j]]) res [0..<n])
       result [0..<m]"

definition multiply_try :: "number Matrix \<Rightarrow> number Matrix \<Rightarrow>
    error + (number Matrix) SimulationResult" where
  "multiply_try this other =
     (case matrixData this of
        [] \<Rightarrow> Inl (TypeError ''Cannot read properties of undefined (reading 'length')'')
      | row0 # _ \<Rightarrow>
          if length row0 \<noteq> length (matrixData other)
          then Inl (SimulationError ''Invalid matrix dimensions for multiplication''
                      validation None)
          else
            (case matrixData other of
               [] \<Rightarrow> Inl (TypeError ''Cannot read properties of undefined (reading 'length')'')
             | orow0 # _ \<Rightarrow>
                 let m = length (matrixData this);
                     n = length orow0;
                     p = length (matrixData other);
                     result = multiply_loops (matrixData this) (matrixData other) m n p
                                (replicate m (replicate n (Fin 0)))
                 in (case new_Matrix result of
                       Inl e \<Rightarrow> Inl e
                     | Inr r \<Rightarrow>
                         Inr \<lparr> data = r,
                               metadata = \<lparr> memoryUsed =
                                   js_mul (js_mul (num (length result)) (num (length (hd result)))) (Fin 8),
                                 precision = 64, success = True \<rparr> \<rparr>)))"

text \<open>The \<^verbatim>\<open>catch\<close> clause rethrows every failure of the body as a computation error.\<close>

definition multiply :: "number Matrix \<Rightarrow> number Matrix \<Rightarrow>
    error + (number Matrix) SimulationResult" where
  "multiply this other =
     (case multiply_try this other of
        Inl e \<Rightarrow> Inl (SimulationError ''Matrix multiplication failed'' computation (Some e))
      | Inr r \<Rightarrow> Inr r)"

subsection \<open>Second listing\<close>

text \<open>The constructor validates the grid as the first listing does, with plain \<^verbatim>\<open>Error\<close>s.\<close>

definition Matrix_validateData2 :: "'a list list \<Rightarrow> error + unit" where
  "Matrix_validateData2 d =
     (case d of
        [] \<Rightarrow> Inl (Error ''Invalid matrix data'')
      | row0 # _ \<Rightarrow>
          if \<not> list_all (\<lambda>row. length row = length row0) d
          then Inl (Error ''All rows must have the same length'')
          else Inr ())"

definition new_Matrix2 :: "'a list list \<Rightarrow> error + 'a Matrix" where
  "new_Matrix2 d = (case Matrix_validateData2 d of Inl e \<Rightarrow> Inl e | Inr _ \<Rightarrow> Inr (Matrix d))"

definition getRows :: "'a Matrix \<Rightarrow> nat" where
  "getRows this = length (matrixData this)"

text \<open>\<^verbatim>\<open>this.data[0].length\<close>; the constructor has made sure that \<^verbatim>\<open>data[0]\<close> exists.\<close>

definition getCols :: "'a Matrix \<Rightarrow> nat" where
  "getCols this = length (hd (matrixData this))"

text \<open>The indices of \<^verbatim>\<open>get\<close> are loop counters here, hence never negative.\<close>

definition get :: "number Matrix \<Rightarrow> nat \<Rightarrow> nat \<Rightarrow> error + number" where
  "get this i j =
     (if i \<ge> getRows this \<or> j \<ge> getCols this then Inl (Error ''Index out of bounds'')
      else Inr (elem (matrixData this ! i) j))"

text \<open>
  The innermost loop of \<^verbatim>\<open>multiply\<close>: \<^verbatim>\<open>sum += this.get(i, k) * other.get(k, j)\<close>, where
  either \<^verbatim>\<open>get\<close> may throw.
\<close>

definition multiply2_sum :: "number Matrix \<Rightarrow> number Matrix \<Rightarrow> nat \<Rightarrow> nat \<Rightarrow> error + number" where
  "multiply2_sum this other i j =
     foldl (\<lambda>acc k.
        case acc of
          Inl e \<Rightarrow> Inl e
        | Inr acc_sum \<Rightarrow>
            (case get this i k of
               Inl e \<Rightarrow> Inl e
             | Inr a \<Rightarrow>
                 (case get other k j of
                    Inl e \<Rightarrow> Inl e
                  | Inr b \<Rightarrow> Inr (js_add acc_sum (js_mul a b)))))
       (Inr (Fin 0)) [0..<getCols this]"

text \<open>\<^verbatim>\<open>result[i] = []\<close>, then \<^verbatim>\<open>result[i][j] = sum\<close> for \<^verbatim>\<open>j\<close> from 0: each write appends.\<close>

definition multiply2_row :: "number Matrix \<Rightarrow> number Matrix \<Rightarrow> nat \<Rightarrow> error + number list" where
  "multiply2_row this other i =
     foldl (\<lambda>acc j.
        case acc of
          Inl e \<Rightarrow> Inl e
        | Inr row \<Rightarrow>
            (case multiply2_sum this other i j of
               Inl e \<Rightarrow> Inl e
             | Inr cell \<Rightarrow> Inr (row @ [cell])))
       (Inr []) [0..<getCols other]"

definition multiply2_rows :: "number Matrix \<Rightarrow> number Matrix \<Rightarrow> error + number list list" where
  "multiply2_rows this other =
     foldl (\<lambda>acc i.
        case acc of
          Inl e \<Rightarrow> Inl e
        | Inr result \<Rightarrow>
            (case multiply2_row this other i of
               Inl e \<Rightarrow> Inl e
             | Inr row \<Rightarrow> Inr (result @ [row])))
       (Inr []) [0..<getRows this]"

text \<open>The argument of \<^verbatim>\<open>multiply(other: Matrix | number)\<close>.\<close>

datatype multiplicand = ByMatrix "number Matrix" | ByNumber number

definition multiply2 :: "number Matrix \<Rightarrow> multiplicand \<Rightarrow> error + number Matrix" where
  "multiply2 this other =
     (case other of
        ByNumber c \<Rightarrow> new_Matrix2 (map (\<lambda>row. map (\<lambda>val. js_mul val c) row) (matrixData this))
      | ByMatrix b \<Rightarrow>
          if getCols this \<noteq> getRows b
          then Inl (Error ''Invalid matrix dimensions for multiplication'')
          else (case multiply2_rows this b of
                  Inl e \<Rightarrow> Inl e
                | Inr result \<Rightarrow> new_Matrix2 result))"

text \<open>
  \<^verbatim>\<open>transpose\<close>: the loops write \<^verbatim>\<open>result[j][i] = this.data[i][j]\<close> into a zero-filled
  array of \<^verbatim>\<open>getCols()\<close> rows of length \<^verbatim>\<open>getRows()\<close>, which the constructor then
  validates.
\<close>

definition transpose_loops :: "number list list \<Rightarrow> nat \<Rightarrow> nat \<Rightarrow> number list list \<Rightarrow> number list list" where
  "transpose_loops d rows cols result =
     foldl (\<lambda>res i. foldl (\<lambda>res j. res[j := (res ! j)[i := elem (d ! i) j]]) res [0..<cols])
       result [0..<rows]"

definition transpose2 :: "number Matrix \<Rightarrow> error + number Matrix" where
  "transpose2 this =
     new_Matrix2 (transpose_loops (matrixData this) (getRows this) (getCols this)
       (replicate (getCols this) (replicate (getRows this) (Fin 0))))"

subsection \<open>Reference definitions\<close>

text \<open>
  The standard matrix product, as the specification names it: entry \<open>(i, j)\<close> is the sum
  over \<open>k\<close> of \<open>a[i][k] * b[k][j]\<close>, the sum taken left to right from 0 in JavaScript
  arithmetic, every product and every partial sum rounded. \<open>transposed\<close> is the grid with
  rows and columns exchanged.
\<close>

definition js_sum :: "number list \<Rightarrow> number" where
  "js_sum xs = foldl js_add (Fin 0) xs"

definition standard_product :: "number list list \<Rightarrow> number list list \<Rightarrow> number list list" where
  "standard_product a b =
     map (\<lambda>i. map (\<lambda>j. js_sum (map (\<lambda>k. js_mul (a ! i ! k) (b ! k ! j)) [0..<length b]))
            [0..<length (hd b)]) [0..<length a]"

definition transposed :: "number list list \<Rightarrow> number list list" where
  "transposed d = map (\<lambda>j. map (\<lambda>i. d ! i ! j) [0..<length d]) [0..<length (hd d)]"

text \<open>A call fails with an error of the class \<open>t\<close>.\<close>

definition fails_with :: "error_type \<Rightarrow> error + 'a \<Rightarrow> bool" where
  "fails_with t r = (case r of Inl e \<Rightarrow> errorType e = Some t | Inr _ \<Rightarrow> False)"

section \<open>Signal.ts, second listing: the recursive FFT\<close>

text \<open>
  \<^verbatim>\<open>Signal.ts\<close> holds two listings of the class as well. The second (lines 436-556) has
  \<^verbatim>\<open>fft\<close>; its constructor stores the samples without validating them. Its names carry
  the suffix \<open>2\<close> where they clash with the first listing's.
\<close>

record JsComplex =
  re :: number
  im :: number

datatype Signal2 = Signal2 (data2: "number list") (sampleRate2: number)

definition complexMultiply :: "JsComplex \<Rightarrow> JsComplex \<Rightarrow> JsComplex" where
  "complexMultiply a b =
     \<lparr> re = js_sub (js_mul (re a) (re b)) (js_mul (im a) (im b)),
       im = js_add (js_mul (re a) (im b)) (js_mul (im a) (re b)) \<rparr>"

definition complexAdd :: "JsComplex \<Rightarrow> JsComplex \<Rightarrow> JsComplex" where
  "complexAdd a b = \<lparr> re = js_add (re a) (re b), im = js_add (im a) (im b) \<rparr>"

definition complexSubtract :: "JsComplex \<Rightarrow> JsComplex \<Rightarrow> JsComplex" where
  "complexSubtract a b = \<lparr> re = js_sub (re a) (re b), im = js_sub (im a) (im b) \<rparr>"

text \<open>\<^verbatim>\<open>data.filter((_, i) => p(i))\<close>: the elements whose index satisfies \<open>p\<close>.\<close>

fun filter_index :: "(nat \<Rightarrow> bool) \<Rightarrow> nat \<Rightarrow> 'a list \<Rightarrow> 'a list" where
  "filter_index p i [] = []"
| "filter_index p i (x # xs) =
     (if p i then x # filter_index p (Suc i) xs else filter_index p (Suc i) xs)"

text \<open>
  An array of \<^verbatim>\<open>Complex\<close> is a list of options: \<open>None\<close> is a hole of \<^verbatim>\<open>new Array(N)\<close>
  that no write has filled. \<^verbatim>\<open>a[k]\<close> is \<^verbatim>\<open>undefined\<close> at a hole and past the end.
\<close>

definition at_index :: "'a option list \<Rightarrow> nat \<Rightarrow> 'a option" where
  "at_index a k = (if k < length a then a ! k else None)"

text \<open>What reading \<^verbatim>\<open>.re\<close> of \<^verbatim>\<open>undefined\<close> throws.\<close>

definition undefined_re :: error where
  "undefined_re = TypeError ''Cannot read properties of undefined (reading 're')''"

text \<open>
  The twiddle factor \<^verbatim>\<open>t\<close> of the loop, and one iteration of it. \<^verbatim>\<open>complexMultiply(t, odd[k])\<close>
  reads \<^verbatim>\<open>odd[k].re\<close> and \<^verbatim>\<open>complexAdd(even[k], oddK)\<close> reads \<^verbatim>\<open>even[k].re\<close>. The
  write to \<^verbatim>\<open>result[k + N / 2]\<close> sets an element only when \<^verbatim>\<open>N\<close> is even; for an odd \<^verbatim>\<open>N\<close>
  the index is not an integer and the write adds a property that is no element.
\<close>

definition twiddle :: "nat \<Rightarrow> nat \<Rightarrow> JsComplex" where
  "twiddle k N =
     \<lparr> re = Math_cos (js_div (js_mul (js_mul (Fin (- 2)) Math_PI) (num k)) (num N)),
       im = Math_sin (js_div (js_mul (js_mul (Fin (- 2)) Math_PI) (num k)) (num N)) \<rparr>"

definition fft_step :: "nat \<Rightarrow> JsComplex option list \<Rightarrow> JsComplex option list \<Rightarrow>
    JsComplex option list \<Rightarrow> nat \<Rightarrow> error + JsComplex option list" where
  "fft_step N even_r odd_r result k =
     (case at_index odd_r k of
        None \<Rightarrow> Inl undefined_re
      | Some o_k \<Rightarrow>
          let oddK = complexMultiply (twiddle k N) o_k in
          (case at_index even_r k of
             None \<Rightarrow> Inl undefined_re
           | Some e_k \<Rightarrow>
               let result1 = result[k := Some (complexAdd e_k oddK)] in
               Inr (if N mod 2 = 0
                    then result1[k + N div 2 := Some (complexSubtract e_k oddK)]
                    else result1)))"

text \<open>\<^verbatim>\<open>for (let k = 0; k < N / 2; k++)\<close>: for the integers \<open>k\<close> with \<open>2 * k < N\<close>.\<close>

definition fft_loop :: "nat \<Rightarrow> JsComplex option list \<Rightarrow> JsComplex option list \<Rightarrow>
    error + JsComplex option list" where
  "fft_loop N even_r odd_r =
     foldl (\<lambda>acc k. case acc of Inl e \<Rightarrow> Inl e | Inr result \<Rightarrow> fft_step N even_r odd_r result k)
       (Inr (replicate N None)) [0..<(N + 1) div 2]"

lemma length_filter_index_le: "length (filter_index p i xs) \<le> length xs"
  by (induction xs arbitrary: i) (auto intro: le_SucI)

lemma length_filter_index_less:
  "xs \<noteq> [] \<Longrightarrow> \<not> p i \<or> (tl xs \<noteq> [] \<and> \<not> p (Suc i)) \<Longrightarrow> length (filter_index p i xs) < length xs"
proof (cases xs)
  case Nil
  then show "xs \<noteq> [] \<Longrightarrow> ?thesis" by simp
next
  case (Cons x ys)
  assume "\<not> p i \<or> (tl xs \<noteq> [] \<and> \<not> p (Suc i))"
  then show ?thesis
  proof
    assume "\<not> p i"
    then show ?thesis
      using length_filter_index_le[of p "Suc i" ys] by (simp add: Cons le_imp_less_Suc)
  next
    assume a: "tl xs \<noteq> [] \<and> \<not> p (Suc i)"
    then obtain y zs where ys: "ys = y # zs" using Cons by (cases ys) auto
    show ?thesis
      using a length_filter_index_le[of p "Suc (Suc i)" zs] by (simp add: Cons ys le_imp_less_Suc)
  qed
qed

text \<open>
  \<^verbatim>\<open>fft\<close>. The two halves are new signals with the default sample rate 1000; a failure of
  either recursive call propagates.
\<close>

function fft :: "Signal2 \<Rightarrow> error + JsComplex option list" where
  "fft this =
     (if length (data2 this) \<le> 1
      then Inr (map (\<lambda>x. Some \<lparr> re = x, im = Fin 0 \<rparr>) (data2 this))
      else
        (case fft (Signal2 (filter_index (\<lambda>i. i mod 2 = 0) 0 (data2 this)) (Fin 1000)) of
           Inl e \<Rightarrow> Inl e
         | Inr even_r \<Rightarrow>
             (case fft (Signal2 (filter_index (\<lambda>i. i mod 2 = 1) 0 (data2 this)) (Fin 1000)) of
                Inl e \<Rightarrow> Inl e
              | Inr odd_r \<Rightarrow> fft_loop (length (data2 this)) even_r odd_r)))"
  by pat_completeness auto
termination
proof (relation "measure (\<lambda>s. length (data2 s))")
  show "wf (measure (\<lambda>s. length (data2 s)))" by simp
next
  fix this :: Signal2
  assume "\<not> length (data2 this) \<le> 1"
  then have "data2 this \<noteq> []" "tl (data2 this) \<noteq> []"
    by (cases "data2 this"; simp)+
  then show "(Signal2 (filter_index (\<lambda>i. i mod 2 = 0) 0 (data2 this)) (Fin 1000), this)
      \<in> measure (\<lambda>s. length (data2 s))"
    using length_filter_index_less[of "data2 this" "\<lambda>i. i mod 2 = 0" 0] by simp
next
  fix this :: Signal2 and x2
  assume "\<not> length (data2 this) \<le> 1"
  then have "data2 this \<noteq> []"
    by (cases "data2 this") simp_all
  then show "(Signal2 (filter_index (\<lambda>i. i mod 2 = 1) 0 (data2 this)) (Fin 1000), this)
      \<in> measure (\<lambda>s. length (data2 s))"
    using length_filter_index_less[of "data2 this" "\<lambda>i. i mod 2 = 1" 0] by simp
qed

declare fft.simps [simp del]

text \<open>The sample counts \<^verbatim>\<open>fft\<close> accepts: 1, 2, 4, 8, ... (\<open>isPowerOfTwo_iff\<close> below).\<close>

fun isPowerOfTwo :: "nat \<Rightarrow> bool" where
  "isPowerOfTwo n = (if n \<le> 1 then n = 1 else n mod 2 = 0 \<and> isPowerOfTwo (n div 2))"

declare isPowerOfTwo.simps [simp del]

section \<open>Signal.ts, first listing\<close>

text \<open>
  The class of lines 13-435: the samples (a \<^verbatim>\<open>Float64Array\<close>), the sample rate and a map
  of metadata. Its constructor rejects a sample that is \<^verbatim>\<open>NaN\<close> (and nothing else: the
  infinities pass), then stores the samples.
\<close>

datatype Signal = Signal (getData: "number list") (getSampleRate: number)
  (metadataMap: "string \<rightharpoonup> number")

definition Signal_validateData :: "number list \<Rightarrow> error + unit" where
  "Signal_validateData d =
     (if \<not> list_all (\<lambda>v. \<not> isNaN v) d
      then Inl (SimulationError ''Invalid signal data: array must contain only numbers''
                  validation None)
      else Inr ())"

definition new_Signal :: "number list \<Rightarrow> number \<Rightarrow> error + Signal" where
  "new_Signal d rate =
     (case Signal_validateData d of Inl e \<Rightarrow> Inl e | Inr _ \<Rightarrow> Inr (Signal d rate Map.empty))"

definition setMetadata :: "Signal \<Rightarrow> string \<Rightarrow> number \<Rightarrow> Signal" where
  "setMetadata this key v = Signal (getData this) (getSampleRate this) ((metadataMap this)(key \<mapsto> v))"

text \<open>A parameter with a default: the default stands in for \<^verbatim>\<open>undefined\<close>.\<close>

definition or_default :: "'a option \<Rightarrow> 'a \<Rightarrow> 'a" where
  "or_default v d = (case v of None \<Rightarrow> d | Some x \<Rightarrow> x)"

text \<open>
  \<^verbatim>\<open>new Float64Array(n)\<close>: a zero-filled array whose length is \<^verbatim>\<open>n\<close> truncated towards
  zero (\<^verbatim>\<open>NaN\<close> gives length 0). It throws a \<^verbatim>\<open>RangeError\<close> when that length is negative,
  infinite or past \<open>2\<^sup>5\<^sup>3 - 1\<close>, and when the engine cannot allocate it.
\<close>

definition typedArrayLength :: "number \<Rightarrow> nat option" where
  "typedArrayLength n =
     (case n of
        NaN \<Rightarrow> Some 0
      | Fin x \<Rightarrow> if x \<le> - 1 \<or> 2 ^ 53 \<le> x then None else Some (nat \<lfloor>x\<rfloor>)
      | _ \<Rightarrow> None)"

definition new_Float64Array :: "JsRuntime \<Rightarrow> number \<Rightarrow> error + number list" where
  "new_Float64Array rt n =
     (case typedArrayLength n of
        None \<Rightarrow> Inl (RangeError ''Invalid typed array length'')
      | Some len \<Rightarrow>
          if rt_canAllocate rt len then Inr (replicate len (Fin 0))
          else Inl (RangeError ''Array buffer allocation failed''))"

subsection \<open>generateSine, generateSquare\<close>

text \<open>
  The body of the \<^verbatim>\<open>try\<close> block. The loop \<^verbatim>\<open>for (i = 0; i < samples; i++)\<close> writes
  every element of the array once (for \<^verbatim>\<open>samples = NaN\<close> the array is empty and the loop
  does not run).
\<close>

definition generateSine_try :: "JsRuntime \<Rightarrow> number \<Rightarrow> number \<Rightarrow> number \<Rightarrow> number \<Rightarrow> number \<Rightarrow>
    error + Signal SimulationResult" where
  "generateSine_try rt frequency duration sampleRate amplitude phase =
     (let samples = Math_floor (js_mul duration sampleRate) in
      case new_Float64Array rt samples of
        Inl e \<Rightarrow> Inl e
      | Inr zeros \<Rightarrow>
          let omega = js_mul (js_mul (Fin 2) Math_PI) frequency;
              d = map (\<lambda>i. js_mul amplitude
                        (Math_sin (js_add (js_div (js_mul omega (num i)) sampleRate) phase)))
                    [0..<length zeros]
          in (case new_Signal d sampleRate of
                Inl e \<Rightarrow> Inl e
              | Inr signal \<Rightarrow>
                  Inr \<lparr> data = setMetadata (setMetadata (setMetadata (setMetadata signal
                                 ''frequency'' frequency) ''duration'' duration)
                                 ''amplitude'' amplitude) ''phase'' phase,
                        metadata = \<lparr> memoryUsed = js_mul (num (length d)) (Fin 8),
                                     precision = 64, success = True \<rparr> \<rparr>))"

text \<open>
  \<^verbatim>\<open>generateSine(frequency, duration, sampleRate = 1000, amplitude = 1, phase = 0)\<close>; the
  \<^verbatim>\<open>catch\<close> clause rethrows every failure as a computation error.
\<close>

definition generateSine :: "JsRuntime \<Rightarrow> number \<Rightarrow> number \<Rightarrow> number option \<Rightarrow> number option \<Rightarrow> number option \<Rightarrow>
    error + Signal SimulationResult" where
  "generateSine rt frequency duration sampleRate amplitude phase =
     (case generateSine_try rt frequency duration (or_default sampleRate (Fin 1000))
             (or_default amplitude (Fin 1)) (or_default phase (Fin 0)) of
        Inl e \<Rightarrow> Inl (SimulationError ''Failed to generate sine signal'' computation (Some e))
      | Inr r \<Rightarrow> Inr r)"

definition generateSquare_try :: "JsRuntime \<Rightarrow> number \<Rightarrow> number \<Rightarrow> number \<Rightarrow> number \<Rightarrow>
    error + Signal SimulationResult" where
  "generateSquare_try rt frequency duration sampleRate amplitude =
     (let samples = Math_floor (js_mul duration sampleRate) in
      case new_Float64Array rt samples of
        Inl e \<Rightarrow> Inl e
      | Inr zeros \<Rightarrow>
          let d = map (\<lambda>i. js_mul amplitude
                        (Math_sign (Math_sin (js_div
                           (js_mul (js_mul (js_mul (Fin 2) Math_PI) frequency) (num i)) sampleRate))))
                    [0..<length zeros]
          in (case new_Signal d sampleRate of
                Inl e \<Rightarrow> Inl e
              | Inr signal \<Rightarrow>
                  Inr \<lparr> data = signal,
                        metadata = \<lparr> memoryUsed = js_mul (num (length d)) (Fin 8),
                                     precision = 64, success = True \<rparr> \<rparr>))"

definition generateSquare :: "JsRuntime \<Rightarrow> number \<Rightarrow> number \<Rightarrow> number option \<Rightarrow> number option \<Rightarrow>
    error + Signal SimulationResult" where
  "generateSquare rt frequency duration sampleRate amplitude =
     (case generateSquare_try rt frequency duration (or_default sampleRate (Fin 1000))
             (or_default amplitude (Fin 1)) of
        Inl e \<Rightarrow> Inl (SimulationError ''Failed to generate square signal'' computation (Some e))
      | Inr r \<Rightarrow> Inr r)"

subsection \<open>applyWindow\<close>

text \<open>The field \<^verbatim>\<open>type\<close> of a \<^verbatim>\<open>WindowFunction\<close>, the only one \<^verbatim>\<open>applyWindow\<close> reads.\<close>

datatype WindowType = hamming | hanning | blackman | rectangular

text \<open>
  The angle \<^verbatim>\<open>(2 * Math.PI * i) / (this.data.length - 1)\<close> and the two coefficient curves.
  A \<^verbatim>\<open>switch\<close> without a matching case leaves the zero-filled array as it is.
\<close>

definition window_angle :: "nat \<Rightarrow> nat \<Rightarrow> number" where
  "window_angle i n = js_div (js_mul (js_mul (Fin 2) Math_PI) (num i)) (js_sub (num n) (Fin 1))"

definition applyWindow_try :: "Signal \<Rightarrow> WindowType \<Rightarrow> error + Signal SimulationResult" where
  "applyWindow_try this window_type =
     (let n = length (getData this);
          windowData =
            (case window_type of
               hamming \<Rightarrow>
                 map (\<lambda>i. js_mul (getData this ! i)
                        (js_sub (Fin 0.54) (js_mul (Fin 0.46) (Math_cos (window_angle i n)))))
                   [0..<n]
             | hanning \<Rightarrow>
                 map (\<lambda>i. js_mul (getData this ! i)
                        (js_mul (Fin 0.5) (js_sub (Fin 1) (Math_cos (window_angle i n)))))
                   [0..<n]
             | _ \<Rightarrow> replicate n (Fin 0))
      in case new_Signal windowData (getSampleRate this) of
           Inl e \<Rightarrow> Inl e
         | Inr s \<Rightarrow>
             Inr \<lparr> data = s,
                   metadata = \<lparr> memoryUsed = js_mul (num (length windowData)) (Fin 8),
                                precision = 64, success = True \<rparr> \<rparr>)"

definition applyWindow :: "Signal \<Rightarrow> WindowType \<Rightarrow> error + Signal SimulationResult" where
  "applyWindow this window_type =
     (case applyWindow_try this window_type of
        Inl e \<Rightarrow> Inl (SimulationError ''Failed to apply window'' computation (Some e))
      | Inr r \<Rightarrow> Inr r)"

subsection \<open>generateChirp\<close>

text \<open>
  The option bag of \<^verbatim>\<open>generateChirp\<close>; \<^verbatim>\<open>method\<close> and \<^verbatim>\<open>sampleRate\<close> are optional
  (defaults \<^verbatim>\<open>"linear"\<close> and 44100).
\<close>

datatype ChirpMethod = linear | exponential

record ChirpOptions =
  startFreq :: number
  endFreq :: number
  duration :: number
  method' :: "ChirpMethod option"
  sampleRate :: "number option"

text \<open>The sample at index \<open>i\<close> that each branch of the method computes, \<^verbatim>\<open>t = i / sampleRate\<close>.\<close>

definition chirp_linear_sample :: "number \<Rightarrow> number \<Rightarrow> number \<Rightarrow> number \<Rightarrow> nat \<Rightarrow> number" where
  "chirp_linear_sample f0 f1 dur rate i =
     (let freqSlope = js_div (js_sub f1 f0) dur;
          t = js_div (num i) rate
      in Math_sin (js_mul (js_mul (Fin 2) Math_PI)
           (js_add (js_mul f0 t) (js_div (js_mul (js_mul freqSlope t) t) (Fin 2)))))"

definition chirp_exponential_sample :: "number \<Rightarrow> number \<Rightarrow> number \<Rightarrow> number \<Rightarrow> nat \<Rightarrow> number" where
  "chirp_exponential_sample f0 f1 dur rate i =
     (let freqRatio = js_div f1 f0;
          freqScale = js_div (Math_log freqRatio) dur;
          t = js_div (num i) rate
      in Math_sin (js_div
           (js_mul (js_mul (js_mul (Fin 2) Math_PI) f0) (js_sub (Math_exp (js_mul freqScale t)) (Fin 1)))
           freqScale))"

text \<open>
  \<^verbatim>\<open>generateChirp\<close> has no \<^verbatim>\<open>try\<close> block: a \<^verbatim>\<open>RangeError\<close> of the allocation and
  the validation error of the \<^verbatim>\<open>Signal\<close> constructor leave it as they are.
\<close>

definition generateChirp :: "JsRuntime \<Rightarrow> ChirpOptions \<Rightarrow> error + Signal SimulationResult" where
  "generateChirp rt options =
     (let m = or_default (method' options) linear;
          rate = or_default (sampleRate options) (Fin 44100);
          numSamples = Math_floor (js_mul (duration options) rate)
      in case new_Float64Array rt numSamples of
           Inl e \<Rightarrow> Inl e
         | Inr zeros \<Rightarrow>
             let d = (if m = linear
                      then map (chirp_linear_sample (startFreq options) (endFreq options)
                                  (duration options) rate) [0..<length zeros]
                      else map (chirp_exponential_sample (startFreq options) (endFreq options)
                                  (duration options) rate) [0..<length zeros])
             in (case new_Signal d rate of
                   Inl e \<Rightarrow> Inl e
                 | Inr signal \<Rightarrow>
                     Inr \<lparr> data = signal,
                           metadata = \<lparr> memoryUsed = js_mul numSamples (Fin 8),
                                        precision = 64, success = True \<rparr> \<rparr>))"

subsection \<open>decompose\<close>

datatype EnvelopeType = EnvMax | EnvMin

text \<open>
  \<^verbatim>\<open>computeEnvelope\<close>. The first loop collects the interior local extrema as pairs of index
  and value; \<^verbatim>\<open>"max"\<close> and \<^verbatim>\<open>"min"\<close> are \<open>EnvMax\<close> and \<open>EnvMin\<close>.
\<close>

definition isExtremum :: "number list \<Rightarrow> EnvelopeType \<Rightarrow> nat \<Rightarrow> bool" where
  "isExtremum d ty i =
     (if ty = EnvMax \<and> js_gt (d ! i) (d ! (i - 1)) \<and> js_gt (d ! i) (d ! (i + 1)) then True
      else if ty = EnvMin \<and> js_lt (d ! i) (d ! (i - 1)) \<and> js_lt (d ! i) (d ! (i + 1)) then True
      else False)"

definition findExtrema :: "number list \<Rightarrow> EnvelopeType \<Rightarrow> (nat \<times> number) list" where
  "findExtrema d ty = map (\<lambda>i. (i, d ! i)) (filter (isExtremum d ty) [1..<length d - 1])"

text \<open>
  The second loop: at every index, the mean of the extrema weighted by
  \<^verbatim>\<open>1 / Math.pow(Math.abs(i - idx), 2)\<close>. The pair is \<^verbatim>\<open>numerator\<close> and \<^verbatim>\<open>denominator\<close>.
\<close>

definition envelope_weight :: "nat \<Rightarrow> nat \<Rightarrow> number" where
  "envelope_weight i idx = js_div (Fin 1) (Math_pow_2 (Math_abs (js_sub (num i) (num idx))))"

definition envelope_sums :: "(nat \<times> number) list \<Rightarrow> nat \<Rightarrow> number \<times> number" where
  "envelope_sums extrema i =
     foldl (\<lambda>(numerator, denominator) (idx, val).
              (js_add numerator (js_mul val (envelope_weight i idx)),
               js_add denominator (envelope_weight i idx)))
       (Fin 0, Fin 0) extrema"

definition computeEnvelope :: "number list \<Rightarrow> EnvelopeType \<Rightarrow> number list" where
  "computeEnvelope d ty =
     map (\<lambda>i. js_div (fst (envelope_sums (findExtrema d ty) i)) (snd (envelope_sums (findExtrema d ty) i)))
       [0..<length d]"

definition checkIMFCriterion :: "number list \<Rightarrow> number list \<Rightarrow> bool" where
  "checkIMFCriterion current previous =
     js_lt (Math_sqrt
        (foldl (\<lambda>acc i. let diff = Math_abs (js_sub (current ! i) (elem previous i))
                         in js_add acc (js_mul diff diff))
           (Fin 0) [0..<length current]))
       (Fin 0.05)"

text \<open>One pass of the sifting loop: the working signal minus the mean of its envelopes.\<close>

definition sift_step :: "number list \<Rightarrow> number list" where
  "sift_step imf =
     (let maxEnv = computeEnvelope imf EnvMax;
          minEnv = computeEnvelope imf EnvMin;
          mean = map (\<lambda>i. js_div (js_add (maxEnv ! i) (elem minEnv i)) (Fin 2)) [0..<length maxEnv]
      in map (\<lambda>i. js_sub (imf ! i) (elem mean i)) [0..<length imf])"

text \<open>
  The \<^verbatim>\<open>do ... while (!this.checkIMFCriterion(imf, prevImf))\<close> loop may run forever; the
  model gives it fuel, one unit per pass, and \<open>None\<close> says that the fuel did not suffice.
\<close>

fun sift :: "nat \<Rightarrow> number list \<Rightarrow> number list option" where
  "sift 0 imf = None"
| "sift (Suc fuel) imf =
     (if checkIMFCriterion (sift_step imf) imf then Some (sift_step imf)
      else sift fuel (sift_step imf))"

text \<open>
  The loop over the modes, with the list \<^verbatim>\<open>modes\<close> and the residual it carries; every
  sifting loop has the fuel \<open>fuel\<close>.
\<close>

fun emd_modes :: "nat \<Rightarrow> number \<Rightarrow> nat \<Rightarrow> number list \<Rightarrow> Signal list \<Rightarrow>
    (error + Signal list) option" where
  "emd_modes fuel rate 0 residual modes = Some (Inr modes)"
| "emd_modes fuel rate (Suc k) residual modes =
     (case sift fuel residual of
        None \<Rightarrow> None
      | Some imf \<Rightarrow>
          (case new_Signal imf rate of
             Inl e \<Rightarrow> Some (Inl e)
           | Inr s \<Rightarrow>
               emd_modes fuel rate k
                 (map (\<lambda>i. js_sub (residual ! i) (elem imf i)) [0..<length residual])
                 (modes @ [s])))"

datatype DecomposeMethod = emd | ssa | pca

text \<open>
  \<^verbatim>\<open>decompose({method, numModes})\<close>. Whatever the loop has collected in \<^verbatim>\<open>modes\<close>, the
  payload returned is the literal \<^verbatim>\<open>[]\<close> (line 333). \<open>None\<close>: the call does not return
  with the given fuel.
\<close>

definition decompose :: "nat \<Rightarrow> Signal \<Rightarrow> DecomposeMethod \<Rightarrow> nat \<Rightarrow>
    (error + (Signal list) SimulationResult) option" where
  "decompose fuel this m numModes =
     (let finished = \<lparr> data = [],
                       metadata = \<lparr> memoryUsed = Fin 0, precision = 64, success = True \<rparr> \<rparr>
      in if m = emd
         then (case emd_modes fuel (getSampleRate this) numModes (getData this) [] of
                 None \<Rightarrow> None
               | Some (Inl e) \<Rightarrow> Some (Inl e)
               | Some (Inr modes) \<Rightarrow> Some (Inr finished))
         else Some (Inr finished))"

text \<open>
  For the proofs: a number that is infinite or \<^verbatim>\<open>NaN\<close>, and the body of the loop over
  the extrema in \<^verbatim>\<open>computeEnvelope\<close> as a function of its own.
\<close>

definition infnan :: "number \<Rightarrow> bool" where
  "infnan x = (x = PInf \<or> x = NInf \<or> x = NaN)"

definition envelope_step :: "nat \<Rightarrow> number \<times> number \<Rightarrow> nat \<times> number \<Rightarrow> number \<times> number" where
  "envelope_step i = (\<lambda>(numerator, denominator) (idx, val).
              (js_add numerator (js_mul val (envelope_weight i idx)),
               js_add denominator (envelope_weight i idx)))"

section \<open>Workspace.ts, first listing\<close>

subsection \<open>Strings\<close>

text \<open>
  Source text is a list of 8-bit characters. \<open>isSpace\<close> is the white space that
  \<^verbatim>\<open>trim\<close> and the pattern \<^verbatim>\<open>\s\<close> remove, as far as it lies in that range: tab, line
  feed, vertical tab, form feed, carriage return, space and no-break space.
\<close>

definition isSpace :: "char \<Rightarrow> bool" where
  "isSpace c = (of_char c \<in> {9, 10, 11, 12, 13, 32, 160 :: nat})"

definition trim :: "string \<Rightarrow> string" where
  "trim s = rev (dropWhile isSpace (rev (dropWhile isSpace s)))"

text \<open>\<^verbatim>\<open>s.split(c)\<close> for a separator of one character: always at least one piece.\<close>

fun split :: "char \<Rightarrow> string \<Rightarrow> string list" where
  "split c [] = [[]]"
| "split c (x # xs) =
     (if x = c then [] # split c xs
      else (case split c xs of p # ps \<Rightarrow> (x # p) # ps | [] \<Rightarrow> [[x]]))"

definition startsWith :: "string \<Rightarrow> string \<Rightarrow> bool" where
  "startsWith s p = (take (length p) s = p)"

text \<open>\<^verbatim>\<open>s.indexOf(p)\<close>; \<open>None\<close> is the result -1.\<close>

fun indexOf_from :: "nat \<Rightarrow> string \<Rightarrow> string \<Rightarrow> nat option" where
  "indexOf_from i [] p = (if p = [] then Some i else None)"
| "indexOf_from i (x # xs) p =
     (if startsWith (x # xs) p then Some i else indexOf_from (Suc i) xs p)"

definition indexOf :: "string \<Rightarrow> string \<Rightarrow> nat option" where
  "indexOf s p = indexOf_from 0 s p"

text \<open>\<^verbatim>\<open>s.substring(a, b)\<close>: the arguments are swapped when \<open>a > b\<close> and clamped to the length.\<close>

definition substring :: "string \<Rightarrow> nat \<Rightarrow> nat \<Rightarrow> string" where
  "substring s a b = take (max a b - min a b) (drop (min a b) s)"

text \<open>\<^verbatim>\<open>a.join(sep)\<close> of strings.\<close>

fun join :: "string \<Rightarrow> string list \<Rightarrow> string" where
  "join sep [] = []"
| "join sep [x] = x"
| "join sep (x # y # ys) = x @ sep @ join sep (y # ys)"

subsection \<open>Parsed values as strings and numbers\<close>

text \<open>
  \<^verbatim>\<open>String(v)\<close> of a parsed value, and the texts of the elements that \<^verbatim>\<open>join\<close> puts
  together (\<^verbatim>\<open>null\<close> is the empty string there); an array is its elements joined by
  commas. The conversion of an object looks up \<^verbatim>\<open>toString\<close>: an object without a field
  of that name inherits the one that returns \<^verbatim>\<open>[object Object]\<close>; a field of that name
  hides it, and as no parsed value is a function (and \<^verbatim>\<open>valueOf\<close> returns no primitive
  either) the conversion throws a \<^verbatim>\<open>TypeError\<close>.
\<close>

definition not_primitive :: error where
  "not_primitive = TypeError ''Cannot convert object to primitive value''"

fun json_String :: "JsRuntime \<Rightarrow> json \<Rightarrow> error + string"
  and json_join_strings :: "JsRuntime \<Rightarrow> json list \<Rightarrow> error + string list" where
  "json_String rt JNull = Inr ''null''"
| "json_String rt (JBool b) = Inr (if b then ''true'' else ''false'')"
| "json_String rt (JNumber n) = Inr (rt_String rt n)"
| "json_String rt (JString s) = Inr s"
| "json_String rt (JArray xs) =
     (case json_join_strings rt xs of Inl e \<Rightarrow> Inl e | Inr strs \<Rightarrow> Inr (join '','' strs))"
| "json_String rt (JObject fs) =
     (if map_of fs ''toString'' \<noteq> None then Inl not_primitive else Inr ''[object Object]'')"
| "json_join_strings rt [] = Inr []"
| "json_join_strings rt (x # xs) =
     (case (if x = JNull then Inr [] else json_String rt x) of
        Inl e \<Rightarrow> Inl e
      | Inr s \<Rightarrow>
          (case json_join_strings rt xs of Inl e \<Rightarrow> Inl e | Inr strs \<Rightarrow> Inr (s # strs)))"

text \<open>
  The number an arithmetic operator reads from a parsed value. An array and an object are
  read through their string, so the reading throws where that conversion does.
\<close>

definition json_Number :: "JsRuntime \<Rightarrow> json \<Rightarrow> error + number" where
  "json_Number rt j =
     (case j of
        JNull \<Rightarrow> Inr (Fin 0)
      | JBool b \<Rightarrow> Inr (if b then Fin 1 else Fin 0)
      | JNumber n \<Rightarrow> Inr n
      | JString s \<Rightarrow> Inr (rt_Number rt s)
      | JArray xs \<Rightarrow>
          (case json_String rt (JArray xs) of Inl e \<Rightarrow> Inl e | Inr s \<Rightarrow> Inr (rt_Number rt s))
      | JObject fs \<Rightarrow> (if map_of fs ''toString'' \<noteq> None then Inl not_primitive else Inr NaN))"

text \<open>\<^verbatim>\<open>o.key\<close> of a parsed object: the last field of that name; \<open>None\<close> is \<^verbatim>\<open>undefined\<close>.\<close>

definition json_field :: "json \<Rightarrow> string \<Rightarrow> json option" where
  "json_field j key = (case j of JObject fs \<Rightarrow> map_of (rev fs) key | _ \<Rightarrow> None)"

text \<open>
  \<^verbatim>\<open>Matrix.toString()\<close> (first listing): the header, then
  \<^verbatim>\<open>this.data.map((row) => row.join("\t")).join("\n")\<close>, the rows from first to last. It
  throws where the conversion of an entry does.
\<close>

fun Matrix_rows_toString :: "JsRuntime \<Rightarrow> json list list \<Rightarrow> error + string list" where
  "Matrix_rows_toString rt [] = Inr []"
| "Matrix_rows_toString rt (row # rows) =
     (case json_join_strings rt row of
        Inl e \<Rightarrow> Inl e
      | Inr strs \<Rightarrow>
          (case Matrix_rows_toString rt rows of
             Inl e \<Rightarrow> Inl e
           | Inr texts \<Rightarrow> Inr (join [CHR 0x09] strs # texts)))"

definition Matrix_toString :: "JsRuntime \<Rightarrow> json Matrix \<Rightarrow> error + string" where
  "Matrix_toString rt this =
     (case Matrix_rows_toString rt (matrixData this) of
        Inl e \<Rightarrow> Inl e
      | Inr texts \<Rightarrow>
          Inr (''Matrix['' @ rt_String rt (num (length (matrixData this))) @ ''x''
                 @ rt_String rt (num (length (hd (matrixData this)))) @ '']'' @ [CHR 0x0A]
                 @ join [CHR 0x0A] texts))"

subsection \<open>Values, built-ins and the environment\<close>

datatype Builtin = BuiltinSine | BuiltinSquare | BuiltinChirp | BuiltinMatrix

datatype WorkspaceValue =
    NumberV number
  | SignalV Signal
  | MatrixV "json Matrix"
  | FunctionV Builtin

text \<open>
  An argument of a call: a workspace value, or what \<^verbatim>\<open>JSON.parse\<close> made of the text
  between the parentheses.
\<close>

datatype Argument = ArgValue WorkspaceValue | ArgJson json

record Workspace =
  variables :: "string \<rightharpoonup> WorkspaceValue"
  history :: "string list"

text \<open>
  The number an arithmetic operator reads from an argument; \<open>None\<close> is a missing argument
  (\<^verbatim>\<open>undefined\<close>). A signal and a function convert to \<^verbatim>\<open>NaN\<close>; a matrix is read through
  its \<^verbatim>\<open>toString()\<close>, which may throw.
\<close>

definition arg_Number :: "JsRuntime \<Rightarrow> Argument option \<Rightarrow> error + number" where
  "arg_Number rt a =
     (case a of
        None \<Rightarrow> Inr NaN
      | Some (ArgJson j) \<Rightarrow> json_Number rt j
      | Some (ArgValue v) \<Rightarrow>
          (case v of
             NumberV n \<Rightarrow> Inr n
           | MatrixV m \<Rightarrow>
               (case Matrix_toString rt m of Inl e \<Rightarrow> Inl e | Inr s \<Rightarrow> Inr (rt_Number rt s))
           | _ \<Rightarrow> Inr NaN))"

definition nth_arg :: "Argument list \<Rightarrow> nat \<Rightarrow> Argument option" where
  "nth_arg args i = (if i < length args then Some (args ! i) else None)"

subsection \<open>The built-in functions\<close>

text \<open>
  \<^verbatim>\<open>registerBuiltins\<close> stores four closures. \<^verbatim>\<open>sine\<close> and \<^verbatim>\<open>square\<close> take
  \<^verbatim>\<open>(freq, duration, sampleRate = 44100)\<close>, pass them on as they are, and return the
  \<^verbatim>\<open>data\<close> of the generator's result. The generator reads an argument as a number where
  its arithmetic first uses it: \<^verbatim>\<open>duration\<close> and \<^verbatim>\<open>sampleRate\<close> in the sample count, then,
  after the allocation, \<^verbatim>\<open>frequency\<close>. A reading that throws does so inside the \<^verbatim>\<open>try\<close>
  block, so it comes out as the generator's computation error.
\<close>

definition call_generator :: "JsRuntime \<Rightarrow> string \<Rightarrow> Argument list \<Rightarrow>
    (number \<Rightarrow> number \<Rightarrow> number \<Rightarrow> error + Signal SimulationResult) \<Rightarrow> error + WorkspaceValue" where
  "call_generator rt failure args generate =
     (case arg_Number rt (nth_arg args 1) of
        Inl e \<Rightarrow> Inl (SimulationError failure computation (Some e))
      | Inr d \<Rightarrow>
          (case (case nth_arg args 2 of None \<Rightarrow> Inr (Fin 44100) | Some a \<Rightarrow> arg_Number rt (Some a)) of
             Inl e \<Rightarrow> Inl (SimulationError failure computation (Some e))
           | Inr rate \<Rightarrow>
               (case new_Float64Array rt (Math_floor (js_mul d rate)) of
                  Inl e \<Rightarrow> Inl (SimulationError failure computation (Some e))
                | Inr zeros \<Rightarrow>
                    (case arg_Number rt (nth_arg args 0) of
                       Inl e \<Rightarrow> Inl (SimulationError failure computation (Some e))
                     | Inr freq \<Rightarrow>
                         (case generate freq d rate of
                            Inl e \<Rightarrow> Inl e
                          | Inr result \<Rightarrow> Inr (SignalV (data result)))))))"

definition call_sine :: "JsRuntime \<Rightarrow> Argument list \<Rightarrow> error + WorkspaceValue" where
  "call_sine rt args =
     call_generator rt ''Failed to generate sine signal'' args
       (\<lambda>freq d rate. generateSine rt freq d (Some rate) None None)"

definition call_square :: "JsRuntime \<Rightarrow> Argument list \<Rightarrow> error + WorkspaceValue" where
  "call_square rt args =
     call_generator rt ''Failed to generate square signal'' args
       (\<lambda>freq d rate. generateSquare rt freq d (Some rate) None)"

text \<open>
  \<^verbatim>\<open>chirp\<close> hands its argument to \<^verbatim>\<open>generateChirp\<close>, which destructures it: that throws
  for \<^verbatim>\<open>undefined\<close> and \<^verbatim>\<open>null\<close>; of a parsed object it reads the fields; a \<^verbatim>\<open>Signal\<close>
  has a property \<^verbatim>\<open>sampleRate\<close> and none of the others; every other value has none of
  them. A field that is not a number is read as one where the arithmetic first uses it:
  \<^verbatim>\<open>duration\<close> and \<^verbatim>\<open>sampleRate\<close> in the sample count, then, after the allocation,
  \<^verbatim>\<open>endFreq\<close> and \<^verbatim>\<open>startFreq\<close>. \<^verbatim>\<open>generateChirp\<close> has no \<^verbatim>\<open>try\<close> block, so a reading that
  throws leaves the call as it is.
\<close>

definition chirp_field :: "JsRuntime \<Rightarrow> Argument \<Rightarrow> string \<Rightarrow> (error + number) option" where
  "chirp_field rt a key =
     (case a of
        ArgJson j \<Rightarrow> map_option (json_Number rt) (json_field j key)
      | ArgValue (SignalV s) \<Rightarrow> (if key = ''sampleRate'' then Some (Inr (getSampleRate s)) else None)
      | _ \<Rightarrow> None)"

definition chirp_method_field :: "Argument \<Rightarrow> ChirpMethod option" where
  "chirp_method_field a =
     (case a of
        ArgJson j \<Rightarrow>
          map_option (\<lambda>m. if m = JString ''linear'' then linear else exponential)
            (json_field j ''method'')
      | _ \<Rightarrow> None)"

definition call_chirp :: "JsRuntime \<Rightarrow> Argument list \<Rightarrow> error + WorkspaceValue" where
  "call_chirp rt args =
     (case nth_arg args 0 of
        None \<Rightarrow> Inl (TypeError ''Cannot destructure property 'startFreq' of 'options' as it is undefined.'')
      | Some a \<Rightarrow>
          if a = ArgJson JNull
          then Inl (TypeError ''Cannot destructure property 'startFreq' of 'options' as it is null.'')
          else
            (case or_default (chirp_field rt a ''duration'') (Inr NaN) of
               Inl e \<Rightarrow> Inl e
             | Inr d \<Rightarrow>
                 (case or_default (chirp_field rt a ''sampleRate'') (Inr (Fin 44100)) of
                    Inl e \<Rightarrow> Inl e
                  | Inr rate \<Rightarrow>
                      (case new_Float64Array rt (Math_floor (js_mul d rate)) of
                         Inl e \<Rightarrow> Inl e
                       | Inr zeros \<Rightarrow>
                           (case or_default (chirp_field rt a ''endFreq'') (Inr NaN) of
                              Inl e \<Rightarrow> Inl e
                            | Inr f1 \<Rightarrow>
                                (case or_default (chirp_field rt a ''startFreq'') (Inr NaN) of
                                   Inl e \<Rightarrow> Inl e
                                 | Inr f0 \<Rightarrow>
                                     (case generateChirp rt
                                             \<lparr> startFreq = f0, endFreq = f1, duration = d,
                                               method' = chirp_method_field a,
                                               sampleRate = Some rate \<rparr> of
                                        Inl e \<Rightarrow> Inl e
                                      | Inr result \<Rightarrow> Inr (SignalV (data result)))))))))"

text \<open>
  \<^verbatim>\<open>matrix\<close> is \<^verbatim>\<open>(data) => new Matrix(data)\<close>, with the constructor of the first listing
  of \<^verbatim>\<open>Matrix.ts\<close>: a missing argument is the default \<^verbatim>\<open>[[]]\<close>; anything that is not
  an array whose first element is an array is no 2D array.
\<close>

definition json_elements :: "json \<Rightarrow> json list" where
  "json_elements j = (case j of JArray xs \<Rightarrow> xs | _ \<Rightarrow> [])"

definition json_isArray :: "json \<Rightarrow> bool" where
  "json_isArray j = (case j of JArray xs \<Rightarrow> True | _ \<Rightarrow> False)"

definition new_Matrix_json :: "json \<Rightarrow> error + json Matrix" where
  "new_Matrix_json j =
     (if \<not> json_isArray j \<or> json_elements j = [] \<or> \<not> json_isArray (hd (json_elements j))
      then Inl (SimulationError ''Invalid matrix data: expected 2D array'' validation None)
      else if \<not> list_all (\<lambda>row. json_isArray row
                  \<and> length (json_elements row) = length (json_elements (hd (json_elements j))))
                (json_elements j)
      then Inl (SimulationError ''Invalid matrix data: rows must have equal length''
                  validation None)
      else Inr (Matrix (map json_elements (json_elements j))))"

definition call_matrix :: "Argument list \<Rightarrow> error + WorkspaceValue" where
  "call_matrix args =
     (case nth_arg args 0 of
        None \<Rightarrow> Inr (MatrixV (Matrix [[]]))
      | Some (ArgJson j) \<Rightarrow>
          (case new_Matrix_json j of Inl e \<Rightarrow> Inl e | Inr m \<Rightarrow> Inr (MatrixV m))
      | Some (ArgValue v) \<Rightarrow>
          Inl (SimulationError ''Invalid matrix data: expected 2D array'' validation None))"

definition call_builtin :: "JsRuntime \<Rightarrow> Builtin \<Rightarrow> Argument list \<Rightarrow> error + WorkspaceValue" where
  "call_builtin rt f args =
     (case f of
        BuiltinSine \<Rightarrow> call_sine rt args
      | BuiltinSquare \<Rightarrow> call_square rt args
      | BuiltinChirp \<Rightarrow> call_chirp rt args
      | BuiltinMatrix \<Rightarrow> call_matrix args)"

text \<open>The constructor: an empty map and history, then \<^verbatim>\<open>registerBuiltins()\<close>.\<close>

definition registerBuiltins :: "Workspace \<Rightarrow> Workspace" where
  "registerBuiltins this =
     this \<lparr> variables := (variables this)
               (''sine'' \<mapsto> FunctionV BuiltinSine,
                ''square'' \<mapsto> FunctionV BuiltinSquare,
                ''chirp'' \<mapsto> FunctionV BuiltinChirp,
                ''matrix'' \<mapsto> FunctionV BuiltinMatrix) \<rparr>"

definition new_Workspace :: Workspace where
  "new_Workspace = registerBuiltins \<lparr> variables = Map.empty, history = [] \<rparr>"

subsection \<open>Evaluation\<close>

text \<open>
  \<^verbatim>\<open>findMatchingParenthesis\<close>: the index of the first closing parenthesis that brings the
  count back to 0 after an opening one was seen.
\<close>

fun findMatching_from :: "nat \<Rightarrow> int \<Rightarrow> bool \<Rightarrow> string \<Rightarrow> error + nat" where
  "findMatching_from i count startFound [] =
     Inl (SimulationError ''Unmatched parentheses'' validation None)"
| "findMatching_from i count startFound (c # cs) =
     (if c = CHR ''('' then findMatching_from (Suc i) (count + 1) True cs
      else if c = CHR '')''
      then (if startFound \<and> count - 1 = 0 then Inr i
            else findMatching_from (Suc i) (count - 1) startFound cs)
      else findMatching_from (Suc i) count startFound cs)"

definition findMatchingParenthesis :: "string \<Rightarrow> error + nat" where
  "findMatchingParenthesis expr = findMatching_from 0 0 False expr"

text \<open>
  The two replacements that turn the object literal of \<^verbatim>\<open>chirp\<close> into JSON:
  \<^verbatim>\<open>/(\w+):/g\<close> by \<^verbatim>\<open>"$1":\<close> (a run of word characters right before a colon gets quotes),
  then every single quote by a double quote.
\<close>

definition isWordChar :: "char \<Rightarrow> bool" where
  "isWordChar c =
     (let n = (of_char c :: nat)
      in (48 \<le> n \<and> n \<le> 57) \<or> (65 \<le> n \<and> n \<le> 90) \<or> (97 \<le> n \<and> n \<le> 122) \<or> n = 95)"

fun quoteKeys :: "string \<Rightarrow> string \<Rightarrow> string" where
  "quoteKeys word [] = word"
| "quoteKeys word (c # cs) =
     (if isWordChar c then quoteKeys (word @ [c]) cs
      else if c = CHR '':'' \<and> word \<noteq> [] then [CHR 0x22] @ word @ [CHR 0x22] @ '':'' @ quoteKeys [] cs
      else word @ [c] @ quoteKeys [] cs)"

definition chirp_json_text :: "string \<Rightarrow> string" where
  "chirp_json_text argsStr = map (\<lambda>c. if c = CHR 0x27 then CHR 0x22 else c) (quoteKeys [] argsStr)"

text \<open>Facts about the string functions that the termination of the evaluator rests on.\<close>

lemma split_not_Nil: "split c s \<noteq> []"
  by (induction s) (auto split: list.splits)

lemma split_sizes: "sum_list (map (\<lambda>p. Suc (length p)) (split c s)) = Suc (length s)"
proof (induction s)
  case Nil
  then show ?case by simp
next
  case (Cons x xs)
  then show ?case
    using split_not_Nil[of c xs] by (cases "split c xs") auto
qed

lemma length_trim_le: "length (trim s) \<le> length s"
proof -
  have "length (dropWhile isSpace (rev (dropWhile isSpace s))) \<le> length (rev (dropWhile isSpace s))"
    by (rule length_dropWhile_le)
  also have "\<dots> \<le> length s"
    by (simp add: length_dropWhile_le)
  finally show ?thesis by (simp add: trim_def)
qed

lemma findMatching_from_bounds:
  "findMatching_from i count startFound cs = Inr r \<Longrightarrow>
   i \<le> r \<and> r < i + length cs \<and> (\<not> startFound \<longrightarrow> i < r)"
proof (induction i count startFound cs rule: findMatching_from.induct)
  case (1 i count startFound)
  then show ?case by simp
next
  case (2 i count startFound c cs)
  then show ?case
    by (auto split: if_splits)
qed

lemma findMatchingParenthesis_bounds:
  "findMatchingParenthesis expr = Inr r \<Longrightarrow> 0 < r \<and> r < length expr"
  unfolding findMatchingParenthesis_def by (drule findMatching_from_bounds) simp

lemma length_argsStr:
  assumes "findMatchingParenthesis expr = Inr r"
  shows "length (trim (substring expr (Suc i) r)) < length expr"
proof -
  have r: "0 < r" "r < length expr"
    using findMatchingParenthesis_bounds[OF assms] by simp_all
  have "length (substring expr (Suc i) r) \<le> length expr - min (Suc i) r"
    by (simp add: substring_def)
  also have "\<dots> < length expr"
    using r by simp
  finally show ?thesis
    using length_trim_le[of "substring expr (Suc i) r"] by simp
qed

text \<open>
  \<^verbatim>\<open>evaluateExpression\<close>, \<^verbatim>\<open>evaluateFunctionCall\<close> and \<^verbatim>\<open>parseArguments\<close> call each
  other; \<open>parseArgumentList\<close> is the callback that \<^verbatim>\<open>parseArguments\<close> maps over the pieces of
  \<^verbatim>\<open>argsStr.split(",")\<close>, left to right, the first failure ending the call. The functions
  read the variables and change nothing.
\<close>

function evaluateExpression :: "JsRuntime \<Rightarrow> (string \<rightharpoonup> WorkspaceValue) \<Rightarrow> string \<Rightarrow> error + WorkspaceValue"
  and evaluateFunctionCall :: "JsRuntime \<Rightarrow> (string \<rightharpoonup> WorkspaceValue) \<Rightarrow> string \<Rightarrow> error + WorkspaceValue"
  and parseArguments :: "JsRuntime \<Rightarrow> (string \<rightharpoonup> WorkspaceValue) \<Rightarrow> string \<Rightarrow> string \<Rightarrow> error + Argument list"
  and parseArgumentList :: "JsRuntime \<Rightarrow> (string \<rightharpoonup> WorkspaceValue) \<Rightarrow> string list \<Rightarrow> error + Argument list"
where
  "evaluateExpression rt vars expr =
     (if expr = [] then Inl (SimulationError ''Empty expression'' validation None)
      else if CHR ''('' \<in> set expr then evaluateFunctionCall rt vars expr
      else if \<not> isNaN (rt_Number rt expr) then Inr (NumberV (rt_Number rt expr))
      else (case vars expr of
              Some v \<Rightarrow> Inr v
            | None \<Rightarrow> Inl (SimulationError (''Cannot evaluate expression: '' @ [CHR 0x27] @ expr @ [CHR 0x27])
                           validation None)))"
| "evaluateFunctionCall rt vars expr =
     (let open_paren = (case indexOf expr ''('' of Some i \<Rightarrow> i | None \<Rightarrow> 0);
          funcName = trim (substring expr 0 open_paren)
      in case findMatchingParenthesis expr of
           Inl e \<Rightarrow> Inl e
         | Inr close_paren \<Rightarrow>
             (case vars funcName of
                Some (FunctionV func) \<Rightarrow>
                  (case parseArguments rt vars (trim (substring expr (Suc open_paren) close_paren)) funcName of
                     Inl e \<Rightarrow> Inl e
                   | Inr args \<Rightarrow> call_builtin rt func args)
              | _ \<Rightarrow> Inl (SimulationError (''Function '' @ [CHR 0x27] @ funcName @ [CHR 0x27] @ '' is not defined'')
                           validation None)))"
| "parseArguments rt vars argsStr funcName =
     (if argsStr = [] then Inr []
      else if funcName = ''matrix''
      then (case rt_JSON_parse rt (filter (\<lambda>c. \<not> isSpace c) argsStr) of
              None \<Rightarrow> Inl (SimulationError ''Invalid matrix format'' validation None)
            | Some j \<Rightarrow> Inr [ArgJson j])
      else if funcName = ''chirp'' \<and> startsWith argsStr ''{''
      then (case rt_JSON_parse rt (chirp_json_text argsStr) of
              None \<Rightarrow> Inl (SimulationError ''Invalid options object format'' validation None)
            | Some j \<Rightarrow> Inr [ArgJson j])
      else parseArgumentList rt vars (split CHR '','' argsStr))"
| "parseArgumentList rt vars [] = Inr []"
| "parseArgumentList rt vars (arg # rest) =
     (if \<not> isNaN (rt_Number rt (trim arg))
      then (case parseArgumentList rt vars rest of
              Inl e \<Rightarrow> Inl e
            | Inr args \<Rightarrow> Inr (ArgValue (NumberV (rt_Number rt (trim arg))) # args))
      else (case evaluateExpression rt vars (trim arg) of
              Inl e \<Rightarrow> Inl e
            | Inr v \<Rightarrow>
                (case parseArgumentList rt vars rest of
                   Inl e \<Rightarrow> Inl e
                 | Inr args \<Rightarrow> Inr (ArgValue v # args))))"
  by pat_completeness auto
termination
proof (relation "measure (\<lambda>x. case x of
          Inl (Inl (rt, vars, expr)) \<Rightarrow> 4 * length expr + 3
        | Inl (Inr (rt, vars, expr)) \<Rightarrow> 4 * length expr + 2
        | Inr (Inl (rt, vars, argsStr, funcName)) \<Rightarrow> 4 * length argsStr + 5
        | Inr (Inr (rt, vars, pieces)) \<Rightarrow> 4 * sum_list (map (\<lambda>p. Suc (length p)) pieces))",
       goal_cases)
  case 1
  then show ?case by simp
next
  case (2 rt vars expr)
  then show ?case by simp
next
  case (3 rt vars expr x xa x2 x2a x4)
  then show ?case
    using length_argsStr[of expr x2 x] by simp
next
  case (4 rt vars argsStr funcName)
  then show ?case
    using split_sizes[of "CHR '',''" argsStr] by simp
next
  case (5 rt vars arg rest)
  then show ?case by simp
next
  case (6 rt vars arg rest)
  then show ?case
    using length_trim_le[of arg] by simp
next
  case (7 rt vars arg rest x2)
  then show ?case by simp
qed

declare evaluateExpression.simps [simp del] evaluateFunctionCall.simps [simp del]
  parseArguments.simps [simp del] parseArgumentList.simps [simp del]

subsection \<open>Output\<close>

text \<open>
  \<^verbatim>\<open>formatOutput\<close>. The text of a signal and of a number is built from numbers alone;
  that of a matrix is its \<^verbatim>\<open>toString()\<close>, which may throw.
\<close>

definition formatOutput :: "JsRuntime \<Rightarrow> WorkspaceValue \<Rightarrow> error + string" where
  "formatOutput rt v =
     (case v of
        SignalV s \<Rightarrow>
          Inr (''Signal['' @ rt_String rt (num (length (getData s))) @ '' samples] = [''
                 @ join '', '' (map (rt_String rt) (take 5 (getData s))) @ ''...]'')
      | MatrixV m \<Rightarrow> Matrix_toString rt m
      | FunctionV f \<Rightarrow> Inr ''[Function]''
      | NumberV n \<Rightarrow> Inr (rt_String rt n))"

subsection \<open>executeLine, execute, getValue\<close>

text \<open>
  The body of the \<^verbatim>\<open>try\<close> block of \<^verbatim>\<open>executeLine\<close>. A line that holds \<^verbatim>\<open>=\<close> is split at
  every \<^verbatim>\<open>=\<close>; the destructuring \<^verbatim>\<open>[varName, expression]\<close> takes the first two pieces.
  The value is stored (line 96) before the output is formatted (line 97): when
  \<^verbatim>\<open>formatOutput\<close> throws, the line fails with the name already bound.
\<close>

definition executeLine_try :: "JsRuntime \<Rightarrow> Workspace \<Rightarrow> string \<Rightarrow> (error + string) \<times> Workspace" where
  "executeLine_try rt this line =
     (if CHR ''='' \<in> set line
      then (case map trim (split CHR ''='' line) of
              varName # expression # ignored \<Rightarrow>
                if varName = [] \<or> expression = []
                then (Inl (SimulationError ''Invalid assignment'' validation None), this)
                else (case evaluateExpression rt (variables this) expression of
                        Inl e \<Rightarrow> (Inl e, this)
                      | Inr v \<Rightarrow>
                          (case formatOutput rt v of
                             Inl e \<Rightarrow> (Inl e, this \<lparr> variables := (variables this)(varName \<mapsto> v) \<rparr>)
                           | Inr shown \<Rightarrow>
                               (Inr (varName @ '' = '' @ shown),
                                this \<lparr> variables := (variables this)(varName \<mapsto> v) \<rparr>)))
            | _ \<Rightarrow> (Inl (SimulationError ''Invalid assignment'' validation None), this))
      else (case evaluateExpression rt (variables this) line of
              Inl e \<Rightarrow> (Inl e, this)
            | Inr v \<Rightarrow>
                (case formatOutput rt v of
                   Inl e \<Rightarrow> (Inl e, this)
                 | Inr shown \<Rightarrow> (Inr shown, this))))"

text \<open>
  \<^verbatim>\<open>executeLine\<close>: the result or the error, and the workspace as the call leaves it. The
  \<^verbatim>\<open>catch\<close> clause rethrows every failure as a runtime error that quotes the line.
\<close>

definition executeLine :: "JsRuntime \<Rightarrow> Workspace \<Rightarrow> string \<Rightarrow> (error + string) \<times> Workspace" where
  "executeLine rt this line =
     (if line = [] then (Inr [], this)
      else (case executeLine_try rt this line of
              (Inl e, this') \<Rightarrow>
                (Inl (SimulationError (''Line '' @ [CHR 0x22] @ line @ [CHR 0x22] @ '': '' @ message e)
                        runtime (Some e)), this')
            | (Inr r, this') \<Rightarrow> (Inr r, this')))"

definition removeInlineComments :: "string \<Rightarrow> string" where
  "removeInlineComments line =
     (case indexOf line ''//'' of
        Some commentIndex \<Rightarrow> trim (substring line 0 commentIndex)
      | None \<Rightarrow> trim line)"

text \<open>The lines that \<^verbatim>\<open>execute\<close> runs: trimmed, not empty, not starting with \<^verbatim>\<open>//\<close>.\<close>

definition codeLines :: "string \<Rightarrow> string list" where
  "codeLines code =
     filter (\<lambda>line. line \<noteq> [] \<and> \<not> startsWith line ''//'') (map trim (split (CHR 0x0A) code))"

text \<open>The \<^verbatim>\<open>for\<close> loop of \<^verbatim>\<open>execute\<close> with its accumulator \<^verbatim>\<open>result\<close>.\<close>

fun execute_loop :: "JsRuntime \<Rightarrow> Workspace \<Rightarrow> string list \<Rightarrow> string \<Rightarrow> (error + string) \<times> Workspace" where
  "execute_loop rt this [] result = (Inr result, this)"
| "execute_loop rt this (line # rest) result =
     (case executeLine rt this (removeInlineComments line) of
        (Inl e, this') \<Rightarrow> (Inl e, this')
      | (Inr lineResult, this') \<Rightarrow>
          if lineResult \<noteq> []
          then execute_loop rt (this' \<lparr> history := history this' @ [line] \<rparr>) rest
                 (result @ lineResult @ [CHR 0x0A])
          else execute_loop rt this' rest result)"

text \<open>
  \<^verbatim>\<open>execute\<close>: the output or the error, and the workspace as the call leaves it (the object
  is changed in place, so what a failing call has stored so far stays stored).
\<close>

definition execute :: "JsRuntime \<Rightarrow> Workspace \<Rightarrow> string \<Rightarrow> (error + string) \<times> Workspace" where
  "execute rt this code =
     (case execute_loop rt this (codeLines code) [] of
        (Inl e, this') \<Rightarrow>
          (Inl (SimulationError (''Execution error: '' @ message e) runtime (Some e)), this')
      | (Inr result, this') \<Rightarrow> (Inr (trim result), this'))"

definition getValue :: "Workspace \<Rightarrow> string \<Rightarrow> WorkspaceValue option" where
  "getValue this name = variables this name"

text \<open>
  A runtime to run the model on concrete lines. Its \<^verbatim>\<open>Number\<close> reads unsigned decimal
  literals (\<^verbatim>\<open>12\<close>, \<^verbatim>\<open>0.25\<close>, \<^verbatim>\<open>1.\<close>, \<^verbatim>\<open>.5\<close>, and the empty string as 0) as JavaScript
  does, to the nearest double, and every other text as \<^verbatim>\<open>NaN\<close>. Its \<^verbatim>\<open>String\<close> writes the special values
  and the natural numbers below \<open>10\<^sup>2\<^sup>1\<close> as JavaScript does, and \<^verbatim>\<open>?\<close> for every other
  number. Its \<^verbatim>\<open>JSON.parse\<close> reads the one text \<^verbatim>\<open>[[{"toString":1}]]\<close> that an example
  below uses. It allocates every array of fewer than \<open>2\<^sup>3\<^sup>2\<close> elements.
\<close>

definition isDigit :: "char \<Rightarrow> bool" where
  "isDigit c = (48 \<le> (of_char c :: nat) \<and> (of_char c :: nat) \<le> 57)"

definition digitsValue :: "string \<Rightarrow> nat" where
  "digitsValue s = foldl (\<lambda>acc c. 10 * acc + (of_char c - 48)) 0 s"

definition decimalNumber :: "string \<Rightarrow> number" where
  "decimalNumber s =
     (case split CHR ''.'' s of
        [a] \<Rightarrow> if list_all isDigit a then fl (real (digitsValue a)) else NaN
      | [a, b] \<Rightarrow>
          if list_all isDigit a \<and> list_all isDigit b \<and> (a \<noteq> [] \<or> b \<noteq> [])
          then fl (real (digitsValue a) + real (digitsValue b) / 10 ^ length b)
          else NaN
      | _ \<Rightarrow> NaN)"

fun natString :: "nat \<Rightarrow> nat \<Rightarrow> string" where
  "natString 0 n = []"
| "natString (Suc fuel) n =
     (if n < 10 then [''0123456789'' ! n]
      else natString fuel (n div 10) @ [''0123456789'' ! (n mod 10)])"

declare natString.simps [simp del]

definition decimalString :: "number \<Rightarrow> string" where
  "decimalString n =
     (case n of
        NaN \<Rightarrow> ''NaN''
      | PInf \<Rightarrow> ''Infinity''
      | NInf \<Rightarrow> ''-Infinity''
      | Fin x \<Rightarrow>
          if 0 \<le> x \<and> x < 10 ^ 21 \<and> x = of_int \<lfloor>x\<rfloor> then natString 21 (nat \<lfloor>x\<rfloor>)
          else ''?'')"

definition toStringMatrixText :: string where
  "toStringMatrixText = ''[[{'' @ [CHR 0x22] @ ''toString'' @ [CHR 0x22] @ '':1}]]''"

definition exampleJSON :: "string \<Rightarrow> json option" where
  "exampleJSON s =
     (if s = toStringMatrixText
      then Some (JArray [JArray [JObject [(''toString'', JNumber (Fin 1))]]])
      else None)"

definition decimalRuntime :: JsRuntime where
  "decimalRuntime =
     \<lparr> rt_Number = decimalNumber,
       rt_String = decimalString,
       rt_JSON_parse = exampleJSON,
       rt_canAllocate = (\<lambda>n. n < 2 ^ 32) \<rparr>"


text \<open>
  A token of a line: not empty, and without white space, \<^verbatim>\<open>=\<close>, parentheses and commas (a
  name, or a numeric literal).
\<close>

definition isToken :: "string \<Rightarrow> bool" where
  "isToken s = (s \<noteq> [] \<and> list_all (\<lambda>c. \<not> isSpace c \<and> c \<noteq> CHR ''='' \<and> c \<noteq> CHR ''(''
                                   \<and> c \<noteq> CHR '')'' \<and> c \<noteq> CHR '','') s)"

text \<open>
  The number that an argument token of a call stands for: \<^verbatim>\<open>parseArguments\<close> reads it as
  a numeric literal first, and as an expression, here a variable, when that gives \<^verbatim>\<open>NaN\<close>.
\<close>

definition argumentNumber :: "JsRuntime \<Rightarrow> (string \<rightharpoonup> WorkspaceValue) \<Rightarrow> string \<Rightarrow> number option" where
  "argumentNumber rt vars arg =
     (if \<not> isNaN (rt_Number rt arg) then Some (rt_Number rt arg)
      else (case vars arg of Some (NumberV n) \<Rightarrow> Some n | _ \<Rightarrow> None))"

section \<open>Properties\<close>

subsection \<open>Rounding\<close>

text \<open>
  Facts about the rounding \<open>fl\<close>: zero and the integers below \<open>2\<^sup>5\<^sup>3\<close> are doubles, and the
  rounding of a real of magnitude at most \<open>2\<^sup>k\<close> is finite and of magnitude at most \<open>2\<^sup>k\<close>
  (a power of two is a double).
\<close>

lemma round_even_of_int [simp]: "round_even (of_int k) = k"
  by (simp add: round_even_def)

lemma round_even_0 [simp]: "round_even 0 = 0"
  using round_even_of_int[of 0] by simp




lemma fl_0 [simp]: "fl 0 = Fin 0"
  by (simp add: fl_def Let_def)


lemma powr_int_diff:
  assumes "e \<le> k"
  shows "(2::real) powr (of_int k) = of_int (2 ^ nat (k - e)) * 2 powr (of_int e)"
proof -
  have "(2::real) powr (of_int k) = 2 powr (real (nat (k - e)) + of_int e)"
    using assms by simp
  also have "\<dots> = 2 powr (real (nat (k - e))) * 2 powr (of_int e)"
    by (rule powr_add)
  also have "2 powr (real (nat (k - e))) = (2::real) ^ nat (k - e)"
    by (simp add: powr_realpow)
  finally show ?thesis by simp
qed



lemma ulp_exponent_int:
  assumes "\<bar>x\<bar> < 2 powr 53"
  shows "ulp_exponent x \<le> 0"
proof (cases "\<bar>x\<bar> < 2 powr (- 1022)")
  case True
  then show ?thesis by (simp add: ulp_exponent_def)
next
  case False
  have "0 < (2::real) powr (- 1022)" by simp
  then have pos: "0 < \<bar>x\<bar>" using False by linarith
  have "log 2 \<bar>x\<bar> < 53"
    using assms pos by (subst log_less_iff) simp_all
  then have "\<lfloor>log 2 \<bar>x\<bar>\<rfloor> < 53" by (simp add: floor_less_iff)
  then show ?thesis using False by (simp add: ulp_exponent_def)
qed

lemma fl_of_int:
  assumes "\<bar>n\<bar> < 2 ^ 53"
  shows "fl (of_int n) = Fin (of_int n)"
proof -
  define e where "e = ulp_exponent (of_int n)"
  define u where "u = (2::real) powr (of_int e)"
  define M where "M = (2::int) ^ nat (- e)"
  have n53: "\<bar>of_int n :: real\<bar> < 2 ^ 53"
    using assms by (metis of_int_abs of_int_less_numeral_power_cancel_iff)
  then have "\<bar>of_int n :: real\<bar> < 2 powr 53" by simp
  then have e0: "e \<le> 0" unfolding e_def by (rule ulp_exponent_int)
  have u: "0 < u" by (simp add: u_def)
  have "(2::real) powr (of_int 0) = of_int (2 ^ nat (0 - e)) * 2 powr (of_int e)"
    by (rule powr_int_diff[OF e0])
  then have Mu: "of_int M * u = 1" by (simp add: M_def u_def)
  then have "of_int n / u = of_int (n * M)"
    using u by (simp add: field_simps)
  then have "round_even (of_int n / u) = n * M"
    by (simp only: round_even_of_int)
  then have r: "of_int (round_even (of_int n / u)) * u = of_int n"
    using Mu by (simp add: mult.assoc)
  have "\<bar>of_int n :: real\<bar> < 2 ^ 1024"
    using n53 by simp
  then show ?thesis
    using r by (simp add: fl_def Let_def u_def e_def)
qed

lemma fl_numeral [simp]:
  "(numeral w :: int) < 2 ^ 53 \<Longrightarrow> fl (numeral w) = Fin (numeral w)"
  "(numeral w :: int) < 2 ^ 53 \<Longrightarrow> fl (- numeral w) = Fin (- numeral w)"
  using fl_of_int[of "numeral w"] fl_of_int[of "- numeral w"] by simp_all

lemma fl_1 [simp]: "fl 1 = Fin 1"
  using fl_of_int[of 1] by simp



subsection \<open>Matrix: the loops in closed form\<close>

lemma fill_row:
  "i < length res \<Longrightarrow> n \<le> length (res ! i) \<Longrightarrow>
   foldl (\<lambda>res j. res[i := (res ! i)[j := f j]]) res [0..<n]
     = res[i := map f [0..<n] @ drop n (res ! i)]"
proof (induction n)
  case 0
  then show ?case by simp
next
  case (Suc n)
  then have n: "n < length (res ! i)" by simp
  have "(map f [0..<n] @ drop n (res ! i))[n := f n] = map f [0..<n] @ (drop n (res ! i))[0 := f n]"
    by (simp add: list_update_append)
  also have "(drop n (res ! i))[0 := f n] = f n # drop (Suc n) (res ! i)"
    using n by (simp add: Cons_nth_drop_Suc[symmetric])
  finally show ?case using Suc by simp
qed

lemma fill_rows:
  "m \<le> length res \<Longrightarrow> (\<And>i. i < m \<Longrightarrow> n \<le> length (res ! i)) \<Longrightarrow>
   foldl (\<lambda>res i. foldl (\<lambda>res j. res[i := (res ! i)[j := f i j]]) res [0..<n]) res [0..<m]
     = map (\<lambda>i. map (f i) [0..<n] @ drop n (res ! i)) [0..<m] @ drop m res"
proof (induction m)
  case 0
  then show ?case by simp
next
  case (Suc m)
  let ?r = "map (\<lambda>i. map (f i) [0..<n] @ drop n (res ! i)) [0..<m] @ drop m res"
  have m: "m < length res" using Suc.prems by simp
  have len: "length ?r = length res" using m by simp
  have at: "?r ! m = res ! m" using m by (simp add: nth_append)
  have "foldl (\<lambda>res j. res[m := (res ! m)[j := f m j]]) ?r [0..<n]
          = ?r[m := map (f m) [0..<n] @ drop n (?r ! m)]"
    using fill_row[of m ?r n "f m"] m len at Suc.prems by simp
  also have "\<dots> = ?r[m := map (f m) [0..<n] @ drop n (res ! m)]"
    unfolding at ..
  also have "\<dots> = map (\<lambda>i. map (f i) [0..<n] @ drop n (res ! i)) [0..<m]
                     @ (drop m res)[0 := map (f m) [0..<n] @ drop n (res ! m)]"
    by (simp add: list_update_append)
  also have "(drop m res)[0 := map (f m) [0..<n] @ drop n (res ! m)]
               = (map (f m) [0..<n] @ drop n (res ! m)) # drop (Suc m) res"
    using m by (simp add: Cons_nth_drop_Suc[symmetric])
  finally show ?case using Suc by simp
qed

lemma multiply_loops_eq:
  "multiply_loops a b m n p (replicate m (replicate n (Fin 0)))
     = map (\<lambda>i. map (\<lambda>j. multiply_sum a b p i j) [0..<n]) [0..<m]"
  unfolding multiply_loops_def
  using fill_rows[of m "replicate m (replicate n (Fin 0))" n "multiply_sum a b p"]
  by simp

lemma fill_col:
  "c \<le> length res \<Longrightarrow>
   foldl (\<lambda>res j. res[j := (res ! j)[i := g j]]) res [0..<c]
     = map (\<lambda>j. (res ! j)[i := g j]) [0..<c] @ drop c res"
proof (induction c)
  case 0
  then show ?case by simp
next
  case (Suc c)
  let ?r = "map (\<lambda>j. (res ! j)[i := g j]) [0..<c] @ drop c res"
  have c: "c < length res" using Suc.prems by simp
  have at: "?r ! c = res ! c" using c by (simp add: nth_append)
  have "?r[c := (?r ! c)[i := g c]] = ?r[c := (res ! c)[i := g c]]"
    unfolding at ..
  also have "\<dots> = map (\<lambda>j. (res ! j)[i := g j]) [0..<c] @ (drop c res)[0 := (res ! c)[i := g c]]"
    by (simp add: list_update_append)
  also have "(drop c res)[0 := (res ! c)[i := g c]] = (res ! c)[i := g c] # drop (Suc c) res"
    using c by (simp add: Cons_nth_drop_Suc[symmetric])
  finally have "?r[c := (?r ! c)[i := g c]] = map (\<lambda>j. (res ! j)[i := g j]) [0..<Suc c] @ drop (Suc c) res"
    by simp
  then show ?case using Suc by simp
qed

lemma transpose_loops_eq:
  "transpose_loops d rows cols (replicate cols (replicate rows (Fin 0)))
     = map (\<lambda>j. map (\<lambda>i. elem (d ! i) j) [0..<rows]) [0..<cols]"
proof -
  have "k \<le> rows \<Longrightarrow>
        foldl (\<lambda>res i. foldl (\<lambda>res j. res[j := (res ! j)[i := elem (d ! i) j]]) res [0..<cols])
          (replicate cols (replicate rows (Fin 0))) [0..<k]
        = map (\<lambda>j. map (\<lambda>i. elem (d ! i) j) [0..<k] @ replicate (rows - k) (Fin 0)) [0..<cols]" for k
  proof (induction k)
    case 0
    then show ?case by (simp add: map_replicate_trivial)
  next
    case (Suc k)
    let ?r = "map (\<lambda>j. map (\<lambda>i. elem (d ! i) j) [0..<k] @ replicate (rows - k) (Fin 0)) [0..<cols]"
    have k: "k < rows" using Suc.prems by simp
    then have rep: "replicate (rows - k) (Fin 0) = Fin 0 # replicate (rows - Suc k) (Fin 0)"
      by (metis Suc_diff_Suc replicate_Suc)
    have "foldl (\<lambda>res j. res[j := (res ! j)[k := elem (d ! k) j]]) ?r [0..<cols]
            = map (\<lambda>j. (?r ! j)[k := elem (d ! k) j]) [0..<cols]"
      using fill_col[of cols ?r k "\<lambda>j. elem (d ! k) j"] by simp
    also have "\<dots> = map (\<lambda>j. map (\<lambda>i. elem (d ! i) j) [0..<Suc k] @ replicate (rows - Suc k) (Fin 0)) [0..<cols]"
      by (rule map_cong[OF refl]) (simp add: list_update_append rep)
    finally show ?case using Suc by simp
  qed
  from this[of rows] show ?thesis by (simp add: transpose_loops_def)
qed

lemma Matrix_validateData_Inr:
  "Matrix_validateData d = Inr u \<longleftrightarrow> d \<noteq> [] \<and> list_all (\<lambda>row. length row = length (hd d)) d"
  by (cases d) (auto simp: Matrix_validateData_def)

lemma Matrix_validateData2_Inr:
  "Matrix_validateData2 d = Inr u \<longleftrightarrow> d \<noteq> [] \<and> list_all (\<lambda>row. length row = length (hd d)) d"
  by (cases d) (auto simp: Matrix_validateData2_def)

lemma new_Matrix_Inr:
  "new_Matrix d = Inr M \<longleftrightarrow> M = Matrix d \<and> d \<noteq> [] \<and> list_all (\<lambda>row. length row = length (hd d)) d"
  by (cases d) (auto simp: new_Matrix_def Matrix_validateData_def)

lemma new_Matrix2_Inr:
  "new_Matrix2 d = Inr M \<longleftrightarrow> M = Matrix d \<and> d \<noteq> [] \<and> list_all (\<lambda>row. length row = length (hd d)) d"
  by (cases d) (auto simp: new_Matrix2_def Matrix_validateData2_def)

lemma rect_row: "list_all (\<lambda>row. length row = c) d \<Longrightarrow> i < length d \<Longrightarrow> length (d ! i) = c"
  by (simp add: list_all_length)

lemma multiply_sum_eq:
  assumes "list_all (\<lambda>row. length row = length b) a" "list_all (\<lambda>row. length row = n) b"
    and "i < length a" "j < n"
  shows "multiply_sum a b (length b) i j = js_sum (map (\<lambda>k. js_mul (a ! i ! k) (b ! k ! j)) [0..<length b])"
proof -
  have eq: "map (\<lambda>k. js_mul (elem (a ! i) k) (elem (b ! k) j)) [0..<length b]
          = map (\<lambda>k. js_mul (a ! i ! k) (b ! k ! j)) [0..<length b]"
    using assms by (intro map_cong[OF refl]) (simp add: elem_def rect_row)
  have ms: "multiply_sum a b (length b) i j
      = foldl js_add (Fin 0) (map (\<lambda>k. js_mul (elem (a ! i) k) (elem (b ! k) j)) [0..<length b])"
    by (simp add: multiply_sum_def foldl_map)
  show ?thesis
    unfolding js_sum_def ms eq ..
qed

lemma multiply_result:
  assumes a: "a \<noteq> []" "list_all (\<lambda>row. length row = length (hd a)) a"
    and b: "b \<noteq> []" "list_all (\<lambda>row. length row = length (hd b)) b"
    and conform: "length (hd a) = length b"
  shows "map (\<lambda>i. map (\<lambda>j. multiply_sum a b (length b) i j) [0..<length (hd b)]) [0..<length a]
           = standard_product a b"
  unfolding standard_product_def
  using assms by (intro map_cong[OF refl]) (simp add: multiply_sum_eq)

lemma standard_product_rect:
  assumes "a \<noteq> []"
  shows "standard_product a b \<noteq> []"
    and "list_all (\<lambda>row. length row = length (hd (standard_product a b))) (standard_product a b)"
proof -
  show ne: "standard_product a b \<noteq> []"
    using assms by (simp add: standard_product_def)
  have "length (hd (standard_product a b)) = length (hd b)"
    using assms by (simp add: hd_conv_nth[OF ne]) (simp add: standard_product_def)
  then show "list_all (\<lambda>row. length row = length (hd (standard_product a b))) (standard_product a b)"
    by (simp add: list_all_length) (simp add: standard_product_def)
qed


lemma multiply_try_conform:
  assumes a: "a \<noteq> []" "list_all (\<lambda>row. length row = length (hd a)) a"
    and b: "b \<noteq> []" "list_all (\<lambda>row. length row = length (hd b)) b"
    and conform: "length (hd a) = length b"
  shows "\<exists>md. multiply_try (Matrix a) (Matrix b)
            = Inr \<lparr> data = Matrix (standard_product a b), metadata = md \<rparr>"
proof -
  obtain r0 rs where ra: "a = r0 # rs" using a by (cases a) auto
  obtain q0 qs where rb: "b = q0 # qs" using b by (cases b) auto
  have res: "multiply_loops a b (length a) (length (hd b)) (length b)
               (replicate (length a) (replicate (length (hd b)) (Fin 0))) = standard_product a b"
    by (simp only: multiply_loops_eq multiply_result[OF a b conform])
  have nm: "new_Matrix (standard_product a b) = Inr (Matrix (standard_product a b))"
    using standard_product_rect[OF a(1), of b] by (simp add: new_Matrix_Inr)
  show ?thesis
    using conform res nm by (simp add: multiply_try_def ra rb Let_def)
qed

lemma multiply_try_mismatch:
  assumes "a \<noteq> []" "length (hd a) \<noteq> length b"
  shows "multiply_try (Matrix a) (Matrix b)
           = Inl (SimulationError ''Invalid matrix dimensions for multiplication'' validation None)"
  using assms by (cases a) (simp_all add: multiply_try_def)

lemma get_in_range:
  assumes "list_all (\<lambda>row. length row = length (hd a)) a" "i < length a" "j < length (hd a)"
  shows "get (Matrix a) i j = Inr (a ! i ! j)"
  using assms by (simp add: get_def getRows_def getCols_def elem_def rect_row)

lemma multiply2_sum_fold:
  assumes "\<And>k. k \<in> set ks \<Longrightarrow> get A i k = Inr (f k) \<and> get B k j = Inr (g k)"
  shows "foldl (\<lambda>acc k.
        case acc of
          Inl e \<Rightarrow> Inl e
        | Inr acc_sum \<Rightarrow>
            (case get A i k of
               Inl e \<Rightarrow> Inl e
             | Inr a \<Rightarrow>
                 (case get B k j of
                    Inl e \<Rightarrow> Inl e
                  | Inr b \<Rightarrow> Inr (js_add acc_sum (js_mul a b)))))
       (Inr s) ks = Inr (foldl js_add s (map (\<lambda>k. js_mul (f k) (g k)) ks))"
  using assms by (induction ks arbitrary: s) simp_all

lemma multiply2_sum_eq:
  assumes a: "list_all (\<lambda>row. length row = length (hd a)) a"
    and b: "list_all (\<lambda>row. length row = length (hd b)) b"
    and conform: "length (hd a) = length b"
    and ij: "i < length a" "j < length (hd b)"
  shows "multiply2_sum (Matrix a) (Matrix b) i j
           = Inr (js_sum (map (\<lambda>k. js_mul (a ! i ! k) (b ! k ! j)) [0..<length b]))"
proof -
  have "get (Matrix a) i k = Inr (a ! i ! k) \<and> get (Matrix b) k j = Inr (b ! k ! j)"
    if "k \<in> set [0..<length b]" for k
    using that a b conform ij by (simp add: get_in_range)
  from multiply2_sum_fold[of "[0..<length b]" "Matrix a" i "\<lambda>k. a ! i ! k" "Matrix b" j "\<lambda>k. b ! k ! j", OF this]
  show ?thesis
    using conform by (simp add: multiply2_sum_def js_sum_def getCols_def)
qed

lemma multiply2_row_fold:
  assumes "\<And>j. j < n \<Longrightarrow> multiply2_sum A B i j = Inr (f j)"
  shows "foldl (\<lambda>acc j.
        case acc of
          Inl e \<Rightarrow> Inl e
        | Inr row \<Rightarrow>
            (case multiply2_sum A B i j of
               Inl e \<Rightarrow> Inl e
             | Inr cell \<Rightarrow> Inr (row @ [cell])))
       (Inr []) [0..<n] = Inr (map f [0..<n])"
  using assms by (induction n) simp_all

lemma multiply2_rows_fold:
  assumes "\<And>i. i < m \<Longrightarrow> multiply2_row A B i = Inr (f i)"
  shows "foldl (\<lambda>acc i.
        case acc of
          Inl e \<Rightarrow> Inl e
        | Inr result \<Rightarrow>
            (case multiply2_row A B i of
               Inl e \<Rightarrow> Inl e
             | Inr row \<Rightarrow> Inr (result @ [row])))
       (Inr []) [0..<m] = Inr (map f [0..<m])"
  using assms by (induction m) simp_all

lemma multiply2_rows_eq:
  assumes a: "list_all (\<lambda>row. length row = length (hd a)) a"
    and b: "list_all (\<lambda>row. length row = length (hd b)) b"
    and conform: "length (hd a) = length b"
  shows "multiply2_rows (Matrix a) (Matrix b) = Inr (standard_product a b)"
proof -
  have row: "multiply2_row (Matrix a) (Matrix b) i
      = Inr (map (\<lambda>j. js_sum (map (\<lambda>k. js_mul (a ! i ! k) (b ! k ! j)) [0..<length b])) [0..<length (hd b)])"
    if "i < length a" for i
    unfolding multiply2_row_def getCols_def Matrix.sel
    by (rule multiply2_row_fold) (simp add: multiply2_sum_eq[OF a b conform that])
  show ?thesis
    unfolding multiply2_rows_def getRows_def Matrix.sel standard_product_def
    by (rule multiply2_rows_fold) (simp add: row)
qed

subsection \<open>Matrix multiplication (claim C8)\<close>

text \<open>
  Claim C8, as amended. For two matrices that their constructors accepted: when the column
  count of the left operand differs from the row count of the right one, \<^verbatim>\<open>multiply\<close>
  fails and returns no (truncated) product. The failure is not classified as a validation
  error: the first listing throws the validation error inside its \<^verbatim>\<open>try\<close> block and
  its \<^verbatim>\<open>catch\<close> rethrows it as the cause of a computation error; the second listing
  throws a plain \<^verbatim>\<open>Error\<close>. When the inner dimensions agree, both listings return the
  standard matrix product.
\<close>

theorem multiply_dimension_check:
  assumes "new_Matrix a = Inr A" and "new_Matrix b = Inr B"
  shows "(if length (hd a) \<noteq> length b
          then multiply A B = Inl (SimulationError ''Matrix multiplication failed'' computation
                 (Some (SimulationError ''Invalid matrix dimensions for multiplication''
                          validation None)))
             \<and> multiply2 A (ByMatrix B) = Inl (Error ''Invalid matrix dimensions for multiplication'')
          else (\<exists>md. multiply A B = Inr \<lparr> data = Matrix (standard_product a b), metadata = md \<rparr>)
             \<and> multiply2 A (ByMatrix B) = Inr (Matrix (standard_product a b)))"
proof -
  from assms have A: "A = Matrix a" and a: "a \<noteq> []" "list_all (\<lambda>row. length row = length (hd a)) a"
    and B: "B = Matrix b" and b: "b \<noteq> []" "list_all (\<lambda>row. length row = length (hd b)) b"
    by (simp_all add: new_Matrix_Inr)
  show ?thesis
  proof (cases "length (hd a) = length b")
    case False
    then show ?thesis
      using a by (simp add: A B multiply_def multiply_try_mismatch multiply2_def getCols_def getRows_def)
  next
    case True
    obtain md where "multiply_try (Matrix a) (Matrix b)
        = Inr \<lparr> data = Matrix (standard_product a b), metadata = md \<rparr>"
      using multiply_try_conform[OF a b True] by blast
    moreover have "new_Matrix2 (standard_product a b) = Inr (Matrix (standard_product a b))"
      using standard_product_rect[OF a(1), of b] by (simp add: new_Matrix2_Inr)
    ultimately show ?thesis
      using True by (simp add: A B multiply_def multiply2_def getCols_def getRows_def
          multiply2_rows_eq[OF a(2) b(2) True])
  qed
qed

text \<open>The theorem at a 1 by 2 matrix, multiplied by itself and by a 2 by 1 matrix.\<close>

theorem multiply_dimension_check_witness:
  "multiply (Matrix [[Fin 1, Fin 2]]) (Matrix [[Fin 1, Fin 2]])
     = Inl (SimulationError ''Matrix multiplication failed'' computation
         (Some (SimulationError ''Invalid matrix dimensions for multiplication'' validation None)))
   \<and> multiply2 (Matrix [[Fin 1, Fin 2]]) (ByMatrix (Matrix [[Fin 3], [Fin 4]]))
     = Inr (Matrix [[Fin 11]])"
proof -
  have m: "new_Matrix [[Fin 1, Fin 2]] = Inr (Matrix [[Fin 1, Fin 2]])"
    and n: "new_Matrix [[Fin 3], [Fin 4]] = Inr (Matrix [[Fin 3], [Fin 4]])"
    by (simp_all add: new_Matrix_def Matrix_validateData_def)
  have sp: "standard_product [[Fin 1, Fin 2]] [[Fin 3], [Fin 4]] = [[Fin 11]]"
    by (simp add: standard_product_def js_sum_def upt_rec[of 0] upt_rec[of 1])
  show ?thesis
    using multiply_dimension_check[OF m m] multiply_dimension_check[OF m n]
    by (simp add: sp)
qed

text \<open>
  Claim C8 as stated fails: the error that \<^verbatim>\<open>multiply\<close> throws on mismatched dimensions
  is of the validation class in neither listing.
\<close>

theorem multiply_not_validation_counterexample:
  "\<not> fails_with validation (multiply (Matrix [[Fin 1, Fin 2]]) (Matrix [[Fin 1, Fin 2]]))
   \<and> \<not> fails_with validation (multiply2 (Matrix [[Fin 1, Fin 2]]) (ByMatrix (Matrix [[Fin 1, Fin 2]])))"
  by (simp add: fails_with_def multiply_def multiply_try_def multiply2_def getCols_def getRows_def)

subsection \<open>Transposition (claim C9)\<close>

lemma transpose2_eq:
  assumes "list_all (\<lambda>row. length row = length (hd d)) d"
  shows "transpose2 (Matrix d) = new_Matrix2 (transposed d)"
proof -
  have "map (\<lambda>j. map (\<lambda>i. elem (d ! i) j) [0..<length d]) [0..<length (hd d)] = transposed d"
    unfolding transposed_def
    using assms by (intro map_cong[OF refl]) (simp add: elem_def rect_row)
  then show ?thesis
    by (simp add: transpose2_def getRows_def getCols_def transpose_loops_eq)
qed

lemma transposed_rect:
  assumes "d \<noteq> []" "0 < length (hd d)"
  shows "transposed d \<noteq> []" and "length (transposed d) = length (hd d)"
    and "length (hd (transposed d)) = length d"
    and "list_all (\<lambda>row. length row = length (hd (transposed d))) (transposed d)"
proof -
  show ne: "transposed d \<noteq> []" using assms by (simp add: transposed_def)
  show "length (transposed d) = length (hd d)" by (simp add: transposed_def)
  show hd: "length (hd (transposed d)) = length d"
    using assms by (simp add: hd_conv_nth[OF ne]) (simp add: transposed_def)
  show "list_all (\<lambda>row. length row = length (hd (transposed d))) (transposed d)"
    unfolding hd by (simp add: list_all_length) (simp add: transposed_def)
qed

lemma transposed_transposed:
  assumes "d \<noteq> []" "0 < length (hd d)" "list_all (\<lambda>row. length row = length (hd d)) d"
  shows "transposed (transposed d) = d"
proof (rule nth_equalityI)
  show len: "length (transposed (transposed d)) = length d"
    using transposed_rect(3)[OF assms(1,2)] by (simp add: transposed_def[of "transposed d"])
  fix i assume "i < length (transposed (transposed d))"
  then have i: "i < length d" using len by simp
  have row: "transposed (transposed d) ! i = map (\<lambda>j. transposed d ! j ! i) [0..<length (hd d)]"
    using i transposed_rect(2,3)[OF assms(1,2)] by (simp add: transposed_def[of "transposed d"])
  show "transposed (transposed d) ! i = d ! i"
    unfolding row
    using i assms(3) by (intro nth_equalityI) (simp_all add: rect_row transposed_def)
qed

text \<open>
  Claim C9. For a matrix constructed from a rectangular grid with at least one row and one
  column, \<^verbatim>\<open>transpose()\<close> succeeds, and \<^verbatim>\<open>transpose()\<close> of its result succeeds and
  returns the original grid.
\<close>

theorem transpose_involution:
  assumes "new_Matrix2 d = Inr M" and "0 < length (hd d)"
  shows "\<exists>T. transpose2 M = Inr T \<and> transpose2 T = Inr M \<and> matrixData M = d"
proof -
  from assms(1) have M: "M = Matrix d" and d: "d \<noteq> []" "list_all (\<lambda>row. length row = length (hd d)) d"
    by (simp_all add: new_Matrix2_Inr)
  note t = transposed_rect[OF d(1) assms(2)]
  have 1: "transpose2 M = Inr (Matrix (transposed d))"
    using t(1,4) by (simp add: M transpose2_eq[OF d(2)] new_Matrix2_Inr)
  have 2: "transpose2 (Matrix (transposed d)) = Inr M"
    using d by (simp add: M transpose2_eq[OF t(4)] transposed_transposed[OF d(1) assms(2) d(2)] new_Matrix2_Inr)
  show ?thesis using 1 2 M by simp
qed

text \<open>The theorem at a 2 by 3 grid.\<close>

theorem transpose_involution_witness:
  "transpose2 (Matrix [[Fin 1, Fin 2, Fin 3], [Fin 4, Fin 5, Fin 6]])
     = Inr (Matrix [[Fin 1, Fin 4], [Fin 2, Fin 5], [Fin 3, Fin 6]])
   \<and> transpose2 (Matrix [[Fin 1, Fin 4], [Fin 2, Fin 5], [Fin 3, Fin 6]])
     = Inr (Matrix [[Fin 1, Fin 2, Fin 3], [Fin 4, Fin 5, Fin 6]])"
proof -
  let ?d = "[[Fin 1, Fin 2, Fin 3], [Fin 4, Fin 5, Fin 6]]"
  have m: "new_Matrix2 ?d = Inr (Matrix ?d)"
    by (simp add: new_Matrix2_def Matrix_validateData2_def)
  have t: "transpose2 (Matrix ?d) = Inr (Matrix [[Fin 1, Fin 4], [Fin 2, Fin 5], [Fin 3, Fin 6]])"
    by (simp add: transpose2_eq transposed_def new_Matrix2_def Matrix_validateData2_def upt_rec[of 0] upt_rec[of 1] upt_rec[of 2])
  show ?thesis
    using transpose_involution[OF m] t by auto
qed

text \<open>
  The constructor also accepts a grid whose rows are empty; \<^verbatim>\<open>transpose()\<close> of such a
  matrix builds a grid of no rows, which the constructor rejects.
\<close>

lemma transpose2_no_columns:
  "new_Matrix2 [[]] = Inr (Matrix [[]])"
  "transpose2 (Matrix ([[]] :: number list list)) = Inl (Error ''Invalid matrix data'')"
  by (simp_all add: new_Matrix2_def Matrix_validateData2_def transpose2_def transpose_loops_def getCols_def getRows_def)

subsection \<open>The FFT and the sample count (claim C2)\<close>

lemma length_filter_index:
  "length (filter_index (\<lambda>i. i mod 2 = 0) i xs) = (if even i then (length xs + 1) div 2 else length xs div 2)"
  "length (filter_index (\<lambda>i. i mod 2 = 1) i xs) = (if even i then length xs div 2 else (length xs + 1) div 2)"
  by (induction xs arbitrary: i) (auto simp: mod_Suc)

lemma fft_loop_error_stays:
  "foldl (\<lambda>acc k. case acc of Inl e \<Rightarrow> Inl e | Inr result \<Rightarrow> fft_step N ev od result k) (Inl e) ks = Inl e"
  by (induction ks) simp_all

lemma fft_step_error: "fft_step N ev od result k = Inl e \<Longrightarrow> e = undefined_re"
  by (auto simp: fft_step_def Let_def split: option.splits)

lemma fft_loop_fold_error:
  "foldl (\<lambda>acc k. case acc of Inl e \<Rightarrow> Inl e | Inr result \<Rightarrow> fft_step N ev od result k) acc ks = Inl e
   \<Longrightarrow> acc = Inl e \<or> e = undefined_re"
proof (induction ks arbitrary: acc)
  case Nil
  then show ?case by simp
next
  case (Cons k ks)
  show ?case
  proof (cases acc)
    case (Inl e')
    with Cons.prems show ?thesis by (simp add: fft_loop_error_stays)
  next
    case (Inr r)
    with Cons.prems Cons.IH[of "fft_step N ev od r k"] show ?thesis
      by (auto dest: fft_step_error)
  qed
qed

lemma fft_loop_error: "fft_loop N ev od = Inl e \<Longrightarrow> e = undefined_re"
  unfolding fft_loop_def by (drule fft_loop_fold_error) simp

lemma fft_error: "fft s = Inl e \<Longrightarrow> e = undefined_re"
proof (induction s arbitrary: e rule: fft.induct)
  case (1 this)
  show ?case
  proof (cases "length (data2 this) \<le> 1")
    case True
    with "1.prems" show ?thesis by (simp add: fft.simps[of this])
  next
    case False
    with "1.prems" "1.IH" show ?thesis
      by (auto simp: fft.simps[of this] split: sum.splits dest: fft_loop_error)
  qed
qed

lemma fft_small:
  "length (data2 s) \<le> 1 \<Longrightarrow> fft s = Inr (map (\<lambda>x. Some \<lparr> re = x, im = Fin 0 \<rparr>) (data2 s))"
  by (simp add: fft.simps[of s])

lemma fft_loop_odd:
  assumes "N mod 2 = 1" "length od = N div 2"
  shows "fft_loop N ev od = Inl undefined_re"
proof -
  let ?f = "\<lambda>acc k. case acc of Inl e \<Rightarrow> Inl e | Inr result \<Rightarrow> fft_step N ev od result k"
  have "(N + 1) div 2 = Suc (N div 2)"
    using assms(1) by presburger
  then have upt: "[0..<(N + 1) div 2] = [0..<N div 2] @ [N div 2]"
    by simp
  have loop: "fft_loop N ev od = ?f (foldl ?f (Inr (replicate N None)) [0..<N div 2]) (N div 2)"
    unfolding fft_loop_def upt by simp
  show ?thesis
  proof (cases "foldl ?f (Inr (replicate N None)) [0..<N div 2]")
    case (Inl e)
    then have "e = undefined_re"
      using fft_loop_fold_error[of N ev od "Inr (replicate N None)" "[0..<N div 2]" e] by simp
    with Inl show ?thesis by (simp add: loop)
  next
    case (Inr r)
    then show ?thesis
      using assms(2) by (simp add: loop fft_step_def at_index_def)
  qed
qed

lemma isPowerOfTwo_half:
  assumes "1 < n" "n mod 2 = 0" "\<not> isPowerOfTwo n"
  shows "1 < n div 2" and "\<not> isPowerOfTwo (n div 2)"
proof -
  show 2: "\<not> isPowerOfTwo (n div 2)"
    using assms by (simp add: isPowerOfTwo.simps[of n])
  have "n div 2 \<noteq> 1" using 2 by (auto simp: isPowerOfTwo.simps[of "Suc 0"])
  moreover have "n div 2 \<noteq> 0" using assms(1) by simp
  ultimately show "1 < n div 2" by simp
qed

lemma fft_success_length: "fft s = Inr r \<Longrightarrow> length r = length (data2 s)"
proof (cases "length (data2 s) \<le> 1")
  case True
  then show "fft s = Inr r \<Longrightarrow> ?thesis" by (auto simp: fft_small)
next
  case False
  assume "fft s = Inr r"
  then obtain ev od where "fft_loop (length (data2 s)) ev od = Inr r"
    using False by (auto simp: fft.simps[of s] split: sum.splits)
  moreover have "length r' = N" if "foldl (\<lambda>acc k. case acc of Inl e \<Rightarrow> Inl e | Inr result \<Rightarrow> fft_step N ev od result k) (Inr r0) ks = Inr r'" "length r0 = N"
    for ks r0 r' N
    using that
  proof (induction ks arbitrary: r0)
    case Nil
    then show ?case by simp
  next
    case (Cons k ks)
    show ?case
    proof (cases "fft_step N ev od r0 k")
      case (Inl e)
      with Cons.prems show ?thesis by (simp add: fft_loop_error_stays)
    next
      case (Inr r1)
      then have "length r1 = N"
        using Cons.prems(2) by (auto simp: fft_step_def Let_def split: option.splits if_splits)
      with Cons.IH[of r1] Cons.prems(1) Inr show ?thesis by simp
    qed
  qed
  ultimately show ?thesis
    unfolding fft_loop_def by (metis length_replicate)
qed

lemma fft_not_power_of_two:
  "1 < length (data2 s) \<Longrightarrow> \<not> isPowerOfTwo (length (data2 s)) \<Longrightarrow> fft s = Inl undefined_re"
proof (induction s rule: fft.induct)
  case (1 this)
  let ?N = "length (data2 this)"
  let ?ev = "Signal2 (filter_index (\<lambda>i. i mod 2 = 0) 0 (data2 this)) (Fin 1000)"
  let ?od = "Signal2 (filter_index (\<lambda>i. i mod 2 = 1) 0 (data2 this)) (Fin 1000)"
  have big: "\<not> ?N \<le> 1" using "1.prems" by simp
  show ?case
  proof (cases "?N mod 2 = 0")
    case True
    have "length (data2 ?ev) = ?N div 2"
      using True by (simp add: length_filter_index) presburger
    then have "fft ?ev = Inl undefined_re"
      using "1.IH"(1)[OF big] isPowerOfTwo_half[OF "1.prems"(1) True "1.prems"(2)] by simp
    then show ?thesis
      using big by (simp add: fft.simps[of this])
  next
    case False
    then have odd: "?N mod 2 = 1" by presburger
    show ?thesis
    proof (cases "fft ?ev")
      case (Inl e)
      then show ?thesis
        using big fft_error[OF Inl] by (simp add: fft.simps[of this])
    next
      case ev: (Inr ev)
      show ?thesis
      proof (cases "fft ?od")
        case (Inl e)
        then show ?thesis
          using big ev fft_error[OF Inl] by (simp add: fft.simps[of this])
      next
        case od: (Inr od)
        have "length od = ?N div 2"
          using fft_success_length[OF od] length_filter_index(2)[of 0 "data2 this"] by simp
        then show ?thesis
          using big ev od fft_loop_odd[OF odd] by (simp add: fft.simps[of this])
      qed
    qed
  qed
qed

lemma fft_step_even:
  assumes "N mod 2 = 0" "k < N div 2" "length ev = N div 2" "length od = N div 2"
    "list_all (\<lambda>c. c \<noteq> None) ev" "list_all (\<lambda>c. c \<noteq> None) od"
  shows "fft_step N ev od r k =
    Inr (r[k := Some (complexAdd (the (ev ! k)) (complexMultiply (twiddle k N) (the (od ! k)))),
           k + N div 2 := Some (complexSubtract (the (ev ! k)) (complexMultiply (twiddle k N) (the (od ! k))))])"
proof -
  obtain o_k where o: "od ! k = Some o_k"
    using assms(2,4,6) by (auto simp: list_all_length)
  obtain e_k where e: "ev ! k = Some e_k"
    using assms(2,3,5) by (auto simp: list_all_length)
  show ?thesis
    using assms(1-4) o e by (simp add: fft_step_def at_index_def Let_def)
qed

lemma fft_loop_even:
  assumes "N mod 2 = 0" "length ev = N div 2" "length od = N div 2"
    "list_all (\<lambda>c. c \<noteq> None) ev" "list_all (\<lambda>c. c \<noteq> None) od"
  shows "\<exists>r. fft_loop N ev od = Inr r \<and> length r = N \<and> list_all (\<lambda>c. c \<noteq> None) r"
proof -
  let ?f = "\<lambda>acc k. case acc of Inl e \<Rightarrow> Inl e | Inr result \<Rightarrow> fft_step N ev od result k"
  let ?h = "N div 2"
  have N: "N = ?h + ?h" using assms(1) by presburger
  have inv: "\<exists>r. foldl ?f (Inr (replicate N None)) [0..<k] = Inr r \<and> length r = N
               \<and> (\<forall>j<N. j < k \<or> (?h \<le> j \<and> j < ?h + k) \<longrightarrow> r ! j \<noteq> None)"
    if "k \<le> ?h" for k
    using that
  proof (induction k)
    case 0
    then show ?case by simp
  next
    case (Suc k)
    then obtain r where r: "foldl ?f (Inr (replicate N None)) [0..<k] = Inr r" "length r = N"
      "\<forall>j<N. j < k \<or> (?h \<le> j \<and> j < ?h + k) \<longrightarrow> r ! j \<noteq> None"
      by auto
    have k: "k < ?h" using Suc.prems by simp
    obtain x y where step: "fft_step N ev od r k = Inr (r[k := Some x, k + ?h := Some y])"
      using fft_step_even[OF assms(1) k assms(2-5), of r] by blast
    have "\<forall>j<N. j < Suc k \<or> (?h \<le> j \<and> j < ?h + Suc k) \<longrightarrow> (r[k := Some x, k + ?h := Some y]) ! j \<noteq> None"
    proof (intro allI impI)
      fix j assume j: "j < N" "j < Suc k \<or> (?h \<le> j \<and> j < ?h + Suc k)"
      consider "j = k" | "j = k + ?h" | "j \<noteq> k" "j \<noteq> k + ?h" by blast
      then show "(r[k := Some x, k + ?h := Some y]) ! j \<noteq> None"
      proof cases
        case 1
        then show ?thesis using j(1) r(2) k by (simp add: nth_list_update)
      next
        case 2
        then show ?thesis using j(1) r(2) by (simp add: nth_list_update)
      next
        case 3
        then have "j < k \<or> (?h \<le> j \<and> j < ?h + k)" using j(2) by auto
        then have "r ! j \<noteq> None" using r(3) j(1) by blast
        then show ?thesis using 3 by (simp add: nth_list_update)
      qed
    qed
    then show ?case
      using r(1,2) step by simp
  qed
  have "(N + 1) div 2 = ?h" using assms(1) by presburger
  then have loop: "fft_loop N ev od = foldl ?f (Inr (replicate N None)) [0..<?h]"
    unfolding fft_loop_def by simp
  obtain r where r: "foldl ?f (Inr (replicate N None)) [0..<?h] = Inr r" "length r = N"
      "\<forall>j<N. j < ?h \<or> (?h \<le> j \<and> j < ?h + ?h) \<longrightarrow> r ! j \<noteq> None"
    using inv[of ?h] by auto
  have "list_all (\<lambda>c. c \<noteq> None) r"
    unfolding list_all_length
  proof (intro allI impI)
    fix j assume "j < length r"
    then have "j < N" using r(2) by simp
    moreover from this have "j < ?h \<or> (?h \<le> j \<and> j < ?h + ?h)" using N by linarith
    ultimately show "r ! j \<noteq> None" using r(3) by blast
  qed
  then show ?thesis using r(1,2) loop by simp
qed

lemma fft_power_of_two_succeeds:
  "isPowerOfTwo (length (data2 s)) \<Longrightarrow>
   \<exists>r. fft s = Inr r \<and> length r = length (data2 s) \<and> list_all (\<lambda>c. c \<noteq> None) r"
proof (induction s rule: fft.induct)
  case (1 this)
  let ?N = "length (data2 this)"
  let ?ev = "Signal2 (filter_index (\<lambda>i. i mod 2 = 0) 0 (data2 this)) (Fin 1000)"
  let ?od = "Signal2 (filter_index (\<lambda>i. i mod 2 = 1) 0 (data2 this)) (Fin 1000)"
  show ?case
  proof (cases "?N \<le> 1")
    case True
    then show ?thesis by (simp add: fft_small list_all_length)
  next
    case False
    then have even: "?N mod 2 = 0" and half: "isPowerOfTwo (?N div 2)"
      using "1.prems" by (simp_all add: isPowerOfTwo.simps[of ?N])
    have lev: "length (data2 ?ev) = ?N div 2"
      using even by (simp add: length_filter_index) presburger
    have lod: "length (data2 ?od) = ?N div 2"
      using length_filter_index(2)[of 0 "data2 this"] by simp
    obtain ev where ev: "fft ?ev = Inr ev" "length ev = ?N div 2" "list_all (\<lambda>c. c \<noteq> None) ev"
      using "1.IH"(1)[OF False] half lev by auto
    obtain od where od: "fft ?od = Inr od" "length od = ?N div 2" "list_all (\<lambda>c. c \<noteq> None) od"
      using "1.IH"(2)[OF False ev(1)] half lod by auto
    show ?thesis
      using False ev(1) od(1) fft_loop_even[OF even ev(2) od(2) ev(3) od(3)]
      by (simp add: fft.simps[of this])
  qed
qed

lemma isPowerOfTwo_iff: "isPowerOfTwo n \<longleftrightarrow> (\<exists>k. n = 2 ^ k)"
proof (induction n rule: less_induct)
  case (less n)
  show ?case
  proof (cases "n \<le> 1")
    case True
    have "n = 1 \<longleftrightarrow> (\<exists>k. n = 2 ^ k)"
    proof
      assume "n = 1" then have "n = 2 ^ 0" by simp
      then show "\<exists>k. n = 2 ^ k" ..
    next
      assume "\<exists>k. n = 2 ^ k"
      then obtain k where k: "n = 2 ^ k" ..
      show "n = 1"
      proof (cases k)
        case 0
        with k show ?thesis by simp
      next
        case (Suc j)
        have "(1::nat) \<le> 2 ^ j" by (rule one_le_power) simp
        then have "(1::nat) < 2 * 2 ^ j" by linarith
        then have "(1::nat) < 2 ^ Suc j" by (simp only: power_Suc)
        with k Suc True show ?thesis by simp
      qed
    qed
    with True show ?thesis by (simp add: isPowerOfTwo.simps[of n])
  next
    case False
    then have IH: "isPowerOfTwo (n div 2) \<longleftrightarrow> (\<exists>k. n div 2 = 2 ^ k)"
      using less.IH[of "n div 2"] by simp
    have "(n mod 2 = 0 \<and> (\<exists>k. n div 2 = 2 ^ k)) \<longleftrightarrow> (\<exists>k. n = 2 ^ k)"
    proof
      assume "n mod 2 = 0 \<and> (\<exists>k. n div 2 = 2 ^ k)"
      then obtain k where "n mod 2 = 0" "n div 2 = 2 ^ k" by auto
      then have "n = 2 ^ Suc k" by auto
      then show "\<exists>k. n = 2 ^ k" ..
    next
      assume "\<exists>k. n = 2 ^ k"
      then obtain k where k: "n = 2 ^ k" ..
      with False obtain j where "k = Suc j" by (cases k) auto
      with k have "n mod 2 = 0" "n div 2 = 2 ^ j" by simp_all
      then show "n mod 2 = 0 \<and> (\<exists>k. n div 2 = 2 ^ k)" by blast
    qed
    with False IH show ?thesis by (simp add: isPowerOfTwo.simps[of n])
  qed
qed

text \<open>
  Claim C2, as amended. \<^verbatim>\<open>fft()\<close> of a signal with at most one sample returns the sample
  as a complex value with imaginary part 0. For every signal whose sample count is greater
  than 1 and not a power of two the call fails and returns no result; it fails with the
  \<^verbatim>\<open>TypeError\<close> of reading \<^verbatim>\<open>.re\<close> of a missing element of a half-size transform, not
  with a validation error: the method has no check of the length. For a power of two it
  returns one complex value per sample.
\<close>

theorem fft_requires_power_of_two:
  "(length (data2 s) \<le> 1 \<longrightarrow> fft s = Inr (map (\<lambda>x. Some \<lparr> re = x, im = Fin 0 \<rparr>) (data2 s)))
   \<and> (1 < length (data2 s) \<and> \<not> isPowerOfTwo (length (data2 s)) \<longrightarrow> fft s = Inl undefined_re)
   \<and> (isPowerOfTwo (length (data2 s)) \<longrightarrow>
        (\<exists>r. fft s = Inr r \<and> length r = length (data2 s) \<and> list_all (\<lambda>c. c \<noteq> None) r))"
  using fft_small[of s] fft_not_power_of_two[of s] fft_power_of_two_succeeds[of s] by blast

text \<open>The theorem at signals of one, three and two samples.\<close>

theorem fft_requires_power_of_two_witness:
  "fft (Signal2 [Fin 7] (Fin 1000)) = Inr [Some \<lparr> re = Fin 7, im = Fin 0 \<rparr>]
   \<and> fft (Signal2 [Fin 1, Fin 2, Fin 3] (Fin 1000)) = Inl undefined_re
   \<and> (\<exists>r. fft (Signal2 [Fin 1, Fin 2] (Fin 1000)) = Inr r \<and> length r = 2)"
proof -
  have 1: "isPowerOfTwo (Suc 0)"
    by (simp add: isPowerOfTwo.simps[of "Suc 0"])
  have 2: "isPowerOfTwo (Suc (Suc 0))"
    by (subst isPowerOfTwo.simps) (simp add: 1)
  have 3: "\<not> isPowerOfTwo (Suc (Suc (Suc 0)))"
    by (subst isPowerOfTwo.simps) simp
  show ?thesis
    using fft_requires_power_of_two[of "Signal2 [Fin 7] (Fin 1000)"]
      fft_requires_power_of_two[of "Signal2 [Fin 1, Fin 2, Fin 3] (Fin 1000)"]
      fft_requires_power_of_two[of "Signal2 [Fin 1, Fin 2] (Fin 1000)"] 3 2
    by auto
qed

text \<open>
  Claim C2 as stated fails: on three samples \<^verbatim>\<open>fft()\<close> throws a \<^verbatim>\<open>TypeError\<close>, which
  is no validation error.
\<close>

theorem fft_not_validation_counterexample:
  "fft (Signal2 [Fin 1, Fin 2, Fin 3] (Fin 1000))
     = Inl (TypeError ''Cannot read properties of undefined (reading 're')'')
   \<and> \<not> fails_with validation (fft (Signal2 [Fin 1, Fin 2, Fin 3] (Fin 1000)))"
proof -
  have 3: "\<not> isPowerOfTwo (Suc (Suc (Suc 0)))"
    by (subst isPowerOfTwo.simps) simp
  have "fft (Signal2 [Fin 1, Fin 2, Fin 3] (Fin 1000)) = Inl undefined_re"
    using fft_not_power_of_two[of "Signal2 [Fin 1, Fin 2, Fin 3] (Fin 1000)"] 3 by simp
  then show ?thesis
    by (simp add: fails_with_def undefined_re_def)
qed

subsection \<open>NaN in the samples\<close>

lemma js_mul_NaN [simp]: "js_mul x NaN = NaN"
  by (cases x) simp_all

lemma js_add_NaN [simp]: "js_add x NaN = NaN"
  by (cases x) simp_all

lemma js_sub_NaN [simp]: "js_sub x NaN = NaN" "js_sub NaN x = NaN"
  by (simp_all add: js_sub_def)

lemma js_div_NaN [simp]: "js_div x NaN = NaN"
  by (cases x) simp_all

lemma new_Signal_NaN:
  "NaN \<in> set d \<Longrightarrow> new_Signal d rate
     = Inl (SimulationError ''Invalid signal data: array must contain only numbers'' validation None)"
  by (auto simp: new_Signal_def Signal_validateData_def list_all_iff intro: bexI[of _ NaN])

subsection \<open>The Hamming window of one sample (claim C3)\<close>

text \<open>
  Claim C3 says that a Hamming window applied to a one-sample signal returns the sample
  unchanged. The code has no guard for \<open>N - 1 = 0\<close>: for every one-sample signal the
  angle is \<open>0 / 0 = NaN\<close>, the windowed sample is \<^verbatim>\<open>NaN\<close>, the \<^verbatim>\<open>Signal\<close> constructor
  rejects it, and \<^verbatim>\<open>applyWindow\<close> throws the computation error that wraps the rejection.
\<close>

theorem applyWindow_one_sample:
  "applyWindow (Signal [x] rate m) hamming
     = Inl (SimulationError ''Failed to apply window'' computation
         (Some (SimulationError ''Invalid signal data: array must contain only numbers''
                  validation None)))"
proof -
  have "js_mul x (num 0) = Fin 0 \<or> js_mul x (num 0) = NaN" for x
    by (cases x) (simp_all add: num_def)
  moreover have "js_sub (num 1) (Fin 1) = Fin 0"
    by (simp add: js_sub_def num_def)
  ultimately have "window_angle 0 1 = NaN"
    unfolding window_angle_def by (metis js_div.simps(1,2))
  then show ?thesis
    by (simp add: applyWindow_def applyWindow_try_def new_Signal_NaN)
qed

subsection \<open>The exponential chirp from frequency 0 (claim C6)\<close>

text \<open>
  With \<^verbatim>\<open>startFreq = 0\<close> the exponential branch divides by zero: \<^verbatim>\<open>freqRatio\<close> is
  infinite or \<^verbatim>\<open>NaN\<close>, so is \<^verbatim>\<open>freqScale\<close>, and at \<^verbatim>\<open>t = 0\<close> the product
  \<^verbatim>\<open>freqScale * t\<close> is \<^verbatim>\<open>NaN\<close>. This holds for every end frequency, duration and sample
  rate, and it rests on the rules for the special values alone.
\<close>

lemma chirp_exponential_sample_0:
  "chirp_exponential_sample (Fin 0) f1 dur rate 0 = NaN"
proof -
  have "js_div f1 (Fin 0) \<in> {NaN, PInf, NInf}"
    by (cases f1) auto
  then have "Math_log (js_div f1 (Fin 0)) \<in> {NaN, PInf}"
    by auto
  then have scale: "js_div (Math_log (js_div f1 (Fin 0))) dur \<in> {NaN, PInf, NInf}"
    by (cases dur) (auto split: if_splits)
  have t: "js_div (num 0) rate \<in> {NaN, Fin 0}"
    by (cases rate) (simp_all add: num_def)
  from scale t have "js_mul (js_div (Math_log (js_div f1 (Fin 0))) dur) (js_div (num 0) rate) = NaN"
    by auto
  then show ?thesis
    by (simp add: chirp_exponential_sample_def Let_def)
qed

lemma new_Float64Array_error:
  "new_Float64Array rt n = Inl e \<Longrightarrow> \<exists>m. e = RangeError m"
  by (auto simp: new_Float64Array_def split: option.splits if_splits)

lemma generateChirp_exponential_zero_start_eq:
  assumes "startFreq options = Fin 0" and "method' options = Some exponential"
  shows "generateChirp rt options
     = (let rate = or_default (sampleRate options) (Fin 44100);
            numSamples = Math_floor (js_mul (duration options) rate)
        in case new_Float64Array rt numSamples of
             Inl e \<Rightarrow> Inl e
           | Inr zeros \<Rightarrow>
               if zeros = []
               then Inr \<lparr> data = Signal [] rate Map.empty,
                          metadata = \<lparr> memoryUsed = js_mul numSamples (Fin 8),
                                       precision = 64, success = True \<rparr> \<rparr>
               else Inl (SimulationError ''Invalid signal data: array must contain only numbers''
                           validation None))"
proof -
  let ?rate = "or_default (sampleRate options) (Fin 44100)"
  let ?n = "Math_floor (js_mul (duration options) ?rate)"
  have m: "or_default (method' options) linear = exponential"
    using assms(2) by (simp add: or_default_def)
  show ?thesis
  proof (cases "new_Float64Array rt ?n")
    case (Inl e)
    then show ?thesis
      by (simp add: generateChirp_def Let_def)
  next
    case (Inr zeros)
    show ?thesis
    proof (cases "zeros = []")
      case True
      then show ?thesis
        using Inr by (simp add: generateChirp_def Let_def m new_Signal_def Signal_validateData_def)
    next
      case False
      have "chirp_exponential_sample (Fin 0) (endFreq options) (duration options) ?rate 0 = NaN"
        by (rule chirp_exponential_sample_0)
      moreover have "0 \<in> set [0..<length zeros]" using False by simp
      ultimately have "NaN \<in> set (map (chirp_exponential_sample (Fin 0) (endFreq options)
                                  (duration options) ?rate) [0..<length zeros])"
        by (metis image_eqI set_map)
      then show ?thesis
        using Inr False by (simp add: generateChirp_def Let_def m assms(1) new_Signal_NaN)
    qed
  qed
qed

text \<open>
  Claim C6 says that an exponential chirp with \<^verbatim>\<open>startFreq = 0\<close> is rejected with a
  computation-classified error. \<^verbatim>\<open>generateChirp\<close> has no check of \<^verbatim>\<open>startFreq\<close> and,
  unlike \<^verbatim>\<open>generateSine\<close>, \<^verbatim>\<open>generateSquare\<close> and \<^verbatim>\<open>applyWindow\<close>, no \<^verbatim>\<open>try\<close> block
  that would reclassify a failure. The outcome of every such call: the \<^verbatim>\<open>RangeError\<close> of
  the allocation when \<^verbatim>\<open>Math.floor(duration * sampleRate)\<close> is no array length; a result
  with an empty signal when that count is 0 (or \<^verbatim>\<open>NaN\<close>); and otherwise the validation
  error of the \<^verbatim>\<open>Signal\<close> constructor, which met the \<^verbatim>\<open>NaN\<close> of the first sample. So the
  call never fails with an error of the computation class, and it is not always rejected.
\<close>

theorem generateChirp_exponential_zero_start:
  assumes "startFreq options = Fin 0" and "method' options = Some exponential"
  shows "generateChirp rt options
     = (let rate = or_default (sampleRate options) (Fin 44100);
            numSamples = Math_floor (js_mul (duration options) rate)
        in case new_Float64Array rt numSamples of
             Inl e \<Rightarrow> Inl e
           | Inr zeros \<Rightarrow>
               if zeros = []
               then Inr \<lparr> data = Signal [] rate Map.empty,
                          metadata = \<lparr> memoryUsed = js_mul numSamples (Fin 8),
                                       precision = 64, success = True \<rparr> \<rparr>
               else Inl (SimulationError ''Invalid signal data: array must contain only numbers''
                           validation None))
    \<and> \<not> fails_with computation (generateChirp rt options)
    \<and> (\<forall>e. generateChirp rt options = Inl e \<longrightarrow>
          (\<exists>m. e = RangeError m)
          \<or> e = SimulationError ''Invalid signal data: array must contain only numbers'' validation None)
    \<and> (\<forall>r. generateChirp rt options = Inr r \<longrightarrow> getData (data r) = [])"
proof -
  note eq = generateChirp_exponential_zero_start_eq[OF assms, of rt]
  have "\<not> fails_with computation (generateChirp rt options)"
    unfolding eq
    by (auto simp: fails_with_def Let_def split: sum.splits dest!: new_Float64Array_error)
  moreover have "\<forall>e. generateChirp rt options = Inl e \<longrightarrow>
          (\<exists>m. e = RangeError m)
          \<or> e = SimulationError ''Invalid signal data: array must contain only numbers'' validation None"
    unfolding eq
    by (auto simp: Let_def split: sum.splits if_splits dest!: new_Float64Array_error)
  moreover have "\<forall>r. generateChirp rt options = Inr r \<longrightarrow> getData (data r) = []"
    unfolding eq by (auto simp: Let_def split: sum.splits if_splits)
  ultimately show ?thesis
    using eq by blast
qed

text \<open>
  The call \<^verbatim>\<open>generateChirp({startFreq: 0, endFreq: 100, duration: 1, method: "exponential",
  sampleRate: 2})\<close>: two samples are allocated, the first is \<^verbatim>\<open>NaN\<close>, and the error that
  leaves the call is the constructor's, of the validation class.
\<close>

theorem generateChirp_exponential_zero_start_witness:
  "generateChirp decimalRuntime \<lparr> startFreq = Fin 0, endFreq = Fin 100, duration = Fin 1,
                   method' = Some exponential, sampleRate = Some (Fin 2) \<rparr>
     = Inl (SimulationError ''Invalid signal data: array must contain only numbers'' validation None)
   \<and> \<not> fails_with computation (generateChirp decimalRuntime \<lparr> startFreq = Fin 0, endFreq = Fin 100,
          duration = Fin 1, method' = Some exponential, sampleRate = Some (Fin 2) \<rparr>)"
proof -
  let ?options = "\<lparr> startFreq = Fin 0, endFreq = Fin 100, duration = Fin 1,
                   method' = Some exponential, sampleRate = Some (Fin 2) \<rparr>"
  have len: "typedArrayLength (Fin 2) = Some 2"
    by (simp add: typedArrayLength_def)
  have two: "replicate 2 (Fin 0 :: number) = [Fin 0, Fin 0]"
    by (simp add: numeral_2_eq_2)
  have alloc: "new_Float64Array decimalRuntime (Fin 2) = Inr [Fin 0, Fin 0]"
    by (simp add: new_Float64Array_def len decimalRuntime_def two)
  have h: "startFreq ?options = Fin 0" "method' ?options = Some exponential"
    by simp_all
  note outcome = generateChirp_exponential_zero_start[OF h, of decimalRuntime]
  have "generateChirp decimalRuntime ?options
     = Inl (SimulationError ''Invalid signal data: array must contain only numbers'' validation None)"
    using outcome[THEN conjunct1] by (simp add: or_default_def Let_def alloc)
  moreover have "\<not> fails_with computation (generateChirp decimalRuntime ?options)"
    using outcome by blast
  ultimately show ?thesis
    by blast
qed

subsection \<open>decompose: the sifting loop (claim C4)\<close>

lemma infnan_add: "infnan x \<Longrightarrow> infnan (js_add x y)"
  by (cases x; cases y) (simp_all add: infnan_def)

lemma infnan_add_PInf: "infnan (js_add d PInf)"
  by (cases d) (simp_all add: infnan_def)

lemma infnan_mul_PInf: "infnan (js_mul v PInf)"
  by (cases v) (simp_all add: infnan_def)

lemma infnan_div: "infnan x \<Longrightarrow> infnan y \<Longrightarrow> js_div x y = NaN"
  by (cases x; cases y) (simp_all add: infnan_def)

lemma envelope_weight_self: "envelope_weight i i = PInf"
  by (simp add: envelope_weight_def num_def js_sub_def)

lemma envelope_step_simp:
  "envelope_step i (n, d) (idx, val)
     = (js_add n (js_mul val (envelope_weight i idx)), js_add d (envelope_weight i idx))"
  by (simp add: envelope_step_def)

lemma envelope_sums_step: "envelope_sums extrema i = foldl (envelope_step i) (Fin 0, Fin 0) extrema"
  by (simp add: envelope_sums_def envelope_step_def)

lemma envelope_fold_stays:
  "infnan n \<Longrightarrow> infnan d \<Longrightarrow>
   \<exists>n' d'. foldl (envelope_step i) (n, d) xs = (n', d') \<and> infnan n' \<and> infnan d'"
proof (induction xs arbitrary: n d)
  case Nil
  then show ?case by simp
next
  case (Cons p xs)
  obtain idx val where p: "p = (idx, val)" by (cases p)
  have "infnan (js_add n (js_mul val (envelope_weight i idx)))"
    using Cons.prems(1) by (rule infnan_add)
  moreover have "infnan (js_add d (envelope_weight i idx))"
    using Cons.prems(2) by (rule infnan_add)
  ultimately show ?case
    using Cons.IH by (simp only: p foldl_Cons envelope_step_simp)
qed

lemma envelope_fold_hits:
  assumes "(i, v) \<in> set xs"
  shows "\<exists>n' d'. foldl (envelope_step i) (n, d) xs = (n', d') \<and> infnan n' \<and> infnan d'"
  using assms
proof (induction xs arbitrary: n d)
  case Nil
  then show ?case by simp
next
  case (Cons p xs)
  obtain idx val where p: "p = (idx, val)" by (cases p)
  show ?case
  proof (cases "idx = i")
    case True
    have w: "envelope_weight i idx = PInf" using True by (simp add: envelope_weight_self)
    have "infnan (js_add n (js_mul val PInf))"
      by (cases n; cases val) (simp_all add: infnan_def)
    moreover have "infnan (js_add d PInf)" by (rule infnan_add_PInf)
    ultimately show ?thesis
      using envelope_fold_stays[of "js_add n (js_mul val PInf)" "js_add d PInf" i xs]
      by (simp only: p foldl_Cons envelope_step_simp w)
  next
    case False
    then have "(i, v) \<in> set xs" using Cons.prems p by auto
    from Cons.IH[OF this] show ?thesis
      by (simp only: p foldl_Cons envelope_step_simp)
  qed
qed

lemma in_set_map_upt: "i < n \<Longrightarrow> f i = y \<Longrightarrow> y \<in> set (map f [0..<n])"
  by auto

lemma findExtrema_index: "(i, v) \<in> set (findExtrema d ty) \<Longrightarrow> i < length d"
  by (auto simp: findExtrema_def)

lemma computeEnvelope_NaN:
  assumes "d \<noteq> []"
  shows "NaN \<in> set (computeEnvelope d ty)"
proof (cases "findExtrema d ty")
  case Nil
  have "js_div (fst (envelope_sums [] 0)) (snd (envelope_sums [] 0)) = NaN"
    by (simp add: envelope_sums_step)
  moreover have "0 < length d" using assms by simp
  ultimately show ?thesis
    unfolding computeEnvelope_def Nil by (rule in_set_map_upt[rotated])
next
  case (Cons p ps)
  obtain i v where iv: "(i, v) \<in> set (findExtrema d ty)"
    using Cons by (cases p) auto
  have "js_div (fst (envelope_sums (findExtrema d ty) i)) (snd (envelope_sums (findExtrema d ty) i)) = NaN"
    using envelope_fold_hits[OF iv, of "Fin 0" "Fin 0"]
    by (auto simp: envelope_sums_step infnan_div)
  moreover have "i < length d" using iv by (rule findExtrema_index)
  ultimately show ?thesis
    unfolding computeEnvelope_def by (rule in_set_map_upt[rotated])
qed

lemma length_computeEnvelope: "length (computeEnvelope d ty) = length d"
  by (simp add: computeEnvelope_def)

lemma length_sift_step: "length (sift_step imf) = length imf"
  by (simp add: sift_step_def Let_def)

lemma js_add_NaN_left: "js_add NaN x = NaN"
  by simp

lemma js_add_NaN_right: "js_add x NaN = NaN"
  by (cases x) simp_all

lemma js_sub_NaN_right: "js_sub x NaN = NaN"
  by (simp add: js_sub_def js_add_NaN_right)

lemma sift_step_NaN:
  assumes "imf \<noteq> []"
  shows "NaN \<in> set (sift_step imf)"
proof -
  obtain j where j: "j < length imf" "computeEnvelope imf EnvMax ! j = NaN"
    using computeEnvelope_NaN[OF assms, of EnvMax]
    by (auto simp: in_set_conv_nth length_computeEnvelope)
  let ?mean = "map (\<lambda>i. js_div (js_add (computeEnvelope imf EnvMax ! i) (elem (computeEnvelope imf EnvMin) i)) (Fin 2))
                 [0..<length (computeEnvelope imf EnvMax)]"
  have "elem ?mean j = NaN"
    using j by (simp add: elem_def length_computeEnvelope)
  then have "js_sub (imf ! j) (elem ?mean j) = NaN"
    by (simp add: js_sub_NaN_right)
  with j(1) show ?thesis
    unfolding sift_step_def Let_def by (rule in_set_map_upt)
qed

lemma criterion_fold_NaN:
  "foldl (\<lambda>acc i. let diff = Math_abs (js_sub (current ! i) (elem previous i))
                         in js_add acc (js_mul diff diff)) NaN ks = NaN"
  by (induction ks) (simp_all add: Let_def)

lemma checkIMFCriterion_NaN:
  assumes "NaN \<in> set current"
  shows "\<not> checkIMFCriterion current previous"
proof -
  let ?f = "\<lambda>acc i. let diff = Math_abs (js_sub (current ! i) (elem previous i))
                         in js_add acc (js_mul diff diff)"
  obtain j where j: "j < length current" "current ! j = NaN"
    using assms by (auto simp: in_set_conv_nth)
  have upt: "[0..<length current] = [0..<j] @ j # [Suc j..<length current]"
  proof -
    have "[0..<length current] = [0..<j] @ [j..<length current]"
      using j(1) upt_add_eq_append[of 0 j "length current - j"] by simp
    then show ?thesis using j(1) by (simp add: upt_conv_Cons)
  qed
  have "?f acc j = NaN" for acc
    by (simp add: j(2) Let_def js_sub_def js_add_NaN_right)
  then have "foldl ?f (Fin 0) [0..<length current] = NaN"
    unfolding upt by (simp only: foldl_append foldl_Cons criterion_fold_NaN)
  then show ?thesis
    by (simp add: checkIMFCriterion_def)
qed

lemma sift_diverges: "imf \<noteq> [] \<Longrightarrow> sift fuel imf = None"
proof (induction fuel arbitrary: imf)
  case 0
  then show ?case by simp
next
  case (Suc fuel)
  have "sift_step imf \<noteq> []"
    using Suc.prems length_sift_step[of imf] by auto
  moreover have "\<not> checkIMFCriterion (sift_step imf) imf"
    using sift_step_NaN[OF Suc.prems] by (rule checkIMFCriterion_NaN)
  ultimately show ?case
    using Suc.IH by simp
qed

lemma sift_step_Nil: "sift_step [] = []"
  by (simp add: sift_step_def computeEnvelope_def)

lemma checkIMFCriterion_Nil: "checkIMFCriterion [] []"
  by (simp add: checkIMFCriterion_def)

lemma emd_modes_empty:
  "\<exists>ms. emd_modes (Suc fuel) rate k [] modes = Some (Inr ms)"
  by (induction k arbitrary: modes)
    (simp_all add: sift_step_Nil checkIMFCriterion_Nil new_Signal_def Signal_validateData_def)

text \<open>
  Claim C4 says that \<^verbatim>\<open>decompose({method: "emd", numModes})\<close> returns \<^verbatim>\<open>numModes\<close> mode
  signals. The code does not: the envelope of a non-empty signal always holds a \<^verbatim>\<open>NaN\<close>
  (\<open>0 / 0\<close> without extrema, \<open>\<infinity> / \<infinity>\<close> at an extremum, whose own weight is \<open>1 / 0\<close>), so the
  sifted signal holds one, the stopping criterion compares \<^verbatim>\<open>NaN\<close> with 0.05 and is never
  met, and the call does not return, whatever the fuel. Where the call returns (no modes
  asked for, or an empty signal), the payload is the empty list.
\<close>

theorem decompose_emd:
  "decompose fuel s emd numModes =
     (if numModes = 0 \<or> (getData s = [] \<and> 0 < fuel)
      then Some (Inr \<lparr> data = [], metadata = \<lparr> memoryUsed = Fin 0, precision = 64, success = True \<rparr> \<rparr>)
      else None)"
proof (cases numModes)
  case 0
  then show ?thesis by (simp add: decompose_def)
next
  case (Suc k)
  show ?thesis
  proof (cases "getData s = []")
    case False
    then show ?thesis
      by (simp add: decompose_def Suc sift_diverges)
  next
    case True
    show ?thesis
    proof (cases fuel)
      case 0
      then show ?thesis by (simp add: decompose_def Suc True)
    next
      case (Suc f)
      obtain modes where "emd_modes (Suc f) (getSampleRate s) numModes [] [] = Some (Inr modes)"
        using emd_modes_empty[of f "getSampleRate s" numModes "[]"] by blast
      then show ?thesis
        using True Suc \<open>numModes = Suc k\<close> by (simp add: decompose_def)
    qed
  qed
qed

subsection \<open>Workspace: lines and assignments\<close>

lemma split_no_separator: "c \<notin> set s \<Longrightarrow> split c s = [s]"
  by (induction s) auto

lemma split_append: "c \<notin> set s \<Longrightarrow> split c (s @ c # t) = s # split c t"
  by (induction s) auto


lemma executeLine_try_assignment:
  assumes "split CHR ''='' line = p # q # ps"
  shows "executeLine_try rt this line =
     (if trim p = [] \<or> trim q = []
      then (Inl (SimulationError ''Invalid assignment'' validation None), this)
      else (case evaluateExpression rt (variables this) (trim q) of
              Inl e \<Rightarrow> (Inl e, this)
            | Inr v \<Rightarrow>
                (case formatOutput rt v of
                   Inl e \<Rightarrow> (Inl e, this \<lparr> variables := (variables this)(trim p \<mapsto> v) \<rparr>)
                 | Inr shown \<Rightarrow>
                     (Inr (trim p @ '' = '' @ shown),
                      this \<lparr> variables := (variables this)(trim p \<mapsto> v) \<rparr>))))"
proof -
  have "CHR ''='' \<in> set line"
  proof (rule ccontr)
    assume "CHR ''='' \<notin> set line"
    then have "split CHR ''='' line = [line]" by (rule split_no_separator)
    with assms show False by simp
  qed
  then show ?thesis
    by (simp add: executeLine_try_def assms)
qed





subsection \<open>A line with more than one equals sign (claim C10)\<close>

text \<open>
  Claim C10, as amended. A line with at least two \<^verbatim>\<open>=\<close>, the first two pieces \<open>s0\<close> and
  \<open>s1\<close> holding none. The text after the second \<^verbatim>\<open>=\<close> has no part in the outcome and
  raises no error of its own; it only shows in the line that an error quotes. The line
  binds the name \<open>trim s0\<close> to the value of the expression \<open>trim s1\<close> when both are not
  empty and the expression has a value. It fails with \<^verbatim>\<open>Invalid assignment\<close> when one of
  them is empty, with the error of the expression when that has no value, and, the name
  already bound, with the error of \<^verbatim>\<open>formatOutput\<close> when the value has no text.
\<close>

theorem executeLine_second_equals_ignored:
  assumes "CHR ''='' \<notin> set s0" and "CHR ''='' \<notin> set s1"
  shows "executeLine rt this (s0 @ ''='' @ s1 @ ''='' @ ignored) =
     (if trim s0 = [] \<or> trim s1 = []
      then (Inl (SimulationError
                   (''Line '' @ [CHR 0x22] @ s0 @ ''='' @ s1 @ ''='' @ ignored @ [CHR 0x22]
                      @ '': Invalid assignment'')
                   runtime (Some (SimulationError ''Invalid assignment'' validation None))), this)
      else (case evaluateExpression rt (variables this) (trim s1) of
              Inl e \<Rightarrow>
                (Inl (SimulationError
                        (''Line '' @ [CHR 0x22] @ s0 @ ''='' @ s1 @ ''='' @ ignored @ [CHR 0x22]
                           @ '': '' @ message e)
                        runtime (Some e)), this)
            | Inr v \<Rightarrow>
                (case formatOutput rt v of
                   Inl e \<Rightarrow>
                     (Inl (SimulationError
                             (''Line '' @ [CHR 0x22] @ s0 @ ''='' @ s1 @ ''='' @ ignored @ [CHR 0x22]
                                @ '': '' @ message e)
                             runtime (Some e)),
                      this \<lparr> variables := (variables this)(trim s0 \<mapsto> v) \<rparr>)
                 | Inr shown \<Rightarrow>
                     (Inr (trim s0 @ '' = '' @ shown),
                      this \<lparr> variables := (variables this)(trim s0 \<mapsto> v) \<rparr>))))"
proof -
  let ?line = "s0 @ ''='' @ s1 @ ''='' @ ignored"
  obtain ps where ps: "split CHR ''='' ignored = ps" by simp
  have s: "split CHR ''='' ?line = s0 # s1 # ps"
    using split_append[OF assms(1), of "s1 @ ''='' @ ignored"] split_append[OF assms(2), of ignored] ps
    by simp
  have ne: "?line \<noteq> []" by simp
  show ?thesis
    unfolding executeLine_def executeLine_try_assignment[OF s]
    using ne by (simp split: sum.splits)
qed

lemma trim_a: "trim ''a '' = ''a''" and trim_1: "trim '' 1 '' = ''1''"
  by (simp_all add: trim_def isSpace_def)

lemma decimal_1: "rt_Number decimalRuntime ''1'' = Fin 1"
  by (simp add: decimalRuntime_def decimalNumber_def isDigit_def digitsValue_def)

lemma evaluate_1: "evaluateExpression decimalRuntime vars ''1'' = Inr (NumberV (Fin 1))"
  by (simp add: evaluateExpression.simps decimal_1)

lemma natString_digit: "n < 10 \<Longrightarrow> natString 21 n = [''0123456789'' ! n]"
proof -
  assume n: "n < 10"
  have "(21 :: nat) = Suc 20" by simp
  then have "natString 21 n = natString (Suc 20) n" by (simp only:)
  also have "\<dots> = [''0123456789'' ! n]" using n by (simp only: natString.simps if_True)
  finally show ?thesis .
qed

lemma string_1: "rt_String decimalRuntime (Fin 1) = ''1''"
proof -
  have "decimalString (Fin 1) = natString 21 1"
    by (simp add: decimalString_def)
  also have "\<dots> = ''1''"
    by (simp add: natString_digit)
  finally show ?thesis by (simp add: decimalRuntime_def)
qed


text \<open>The theorem at the line \<^verbatim>\<open>a = 1 = zzz(\<close>, whose ignored part is no expression.\<close>

theorem executeLine_second_equals_ignored_witness:
  "executeLine decimalRuntime new_Workspace ''a = 1 = zzz(''
     = (Inr ''a = 1'', new_Workspace \<lparr> variables := (variables new_Workspace)(''a'' \<mapsto> NumberV (Fin 1)) \<rparr>)"
  using executeLine_second_equals_ignored[of "''a ''" "'' 1 ''" decimalRuntime new_Workspace "'' zzz(''"]
  by (simp add: trim_a trim_1 evaluate_1 formatOutput_def string_1)

text \<open>
  Claim C10 as stated fails on its own example: in a new workspace the line
  \<^verbatim>\<open>a = b = 1\<close> raises an error, because \<^verbatim>\<open>b\<close> has no value, and binds nothing.
\<close>

theorem second_segment_unbound_counterexample:
  "executeLine decimalRuntime new_Workspace ''a = b = 1''
     = (Inl (SimulationError
               (''Line '' @ [CHR 0x22] @ ''a = b = 1'' @ [CHR 0x22] @ '': Cannot evaluate expression: ''
                  @ [CHR 0x27] @ ''b'' @ [CHR 0x27])
               runtime
               (Some (SimulationError (''Cannot evaluate expression: '' @ [CHR 0x27] @ ''b'' @ [CHR 0x27])
                        validation None))),
        new_Workspace)
   \<and> getValue (snd (executeLine decimalRuntime new_Workspace ''a = b = 1'')) ''a'' = None"
proof -
  have s: "split CHR ''='' ''a = b = 1'' = [''a '', '' b '', '' 1'']" by simp
  have t: "trim ''a '' = ''a''" "trim '' b '' = ''b''" by (simp_all add: trim_def isSpace_def)
  have n: "rt_Number decimalRuntime ''b'' = NaN"
    by (simp add: decimalRuntime_def decimalNumber_def isDigit_def)
  have e: "evaluateExpression decimalRuntime (variables new_Workspace) ''b''
      = Inl (SimulationError (''Cannot evaluate expression: '' @ [CHR 0x27] @ ''b'' @ [CHR 0x27])
               validation None)"
    by (simp add: evaluateExpression.simps n new_Workspace_def registerBuiltins_def)
  have "executeLine decimalRuntime new_Workspace ''a = b = 1''
     = (Inl (SimulationError
               (''Line '' @ [CHR 0x22] @ ''a = b = 1'' @ [CHR 0x22] @ '': Cannot evaluate expression: ''
                  @ [CHR 0x27] @ ''b'' @ [CHR 0x27])
               runtime
               (Some (SimulationError (''Cannot evaluate expression: '' @ [CHR 0x27] @ ''b'' @ [CHR 0x27])
                        validation None))),
        new_Workspace)"
    by (simp add: executeLine_def executeLine_try_def s t e)
  then show ?thesis
    by (simp add: getValue_def new_Workspace_def registerBuiltins_def)
qed

subsection \<open>A failing line in execute (claim C1)\<close>





lemma execute_loop_failure_decomposition:
  "fst (execute_loop rt this ls result) = Inl e \<Longrightarrow>
   \<exists>pre bad post out this1. ls = pre @ bad # post
      \<and> execute_loop rt this pre result = (Inr out, this1)
      \<and> fst (executeLine rt this1 (removeInlineComments bad)) = Inl e"
proof (induction ls arbitrary: this result)
  case Nil
  then show ?case by simp
next
  case (Cons l ls)
  obtain r t where ex: "executeLine rt this (removeInlineComments l) = (r, t)"
    by (cases "executeLine rt this (removeInlineComments l)")
  show ?case
  proof (cases r)
    case (Inl e')
    then have "e' = e" using Cons.prems ex by simp
    then have "l # ls = [] @ l # ls \<and> execute_loop rt this [] result = (Inr result, this)
        \<and> fst (executeLine rt this (removeInlineComments l)) = Inl e"
      using ex Inl by simp
    then show ?thesis by blast
  next
    case (Inr lineResult)
    define t' where "t' = (if lineResult \<noteq> [] then t \<lparr> history := history t @ [l] \<rparr> else t)"
    define r' where "r' = (if lineResult \<noteq> [] then result @ lineResult @ [CHR 0x0A] else result)"
    have step: "execute_loop rt this (l # xs) result = execute_loop rt t' xs r'" for xs
      using ex Inr by (simp add: t'_def r'_def)
    then have "fst (execute_loop rt t' ls r') = Inl e" using Cons.prems by simp
    from Cons.IH[OF this] obtain pre bad post out this1 where
      "ls = pre @ bad # post" "execute_loop rt t' pre r' = (Inr out, this1)"
      "fst (executeLine rt this1 (removeInlineComments bad)) = Inl e"
      by blast
    then have "l # ls = (l # pre) @ bad # post \<and> execute_loop rt this (l # pre) result = (Inr out, this1)
        \<and> fst (executeLine rt this1 (removeInlineComments bad)) = Inl e"
      using step by simp
    then show ?thesis by blast
  qed
qed

lemma execute_failure_decomposition:
  assumes "fst (execute rt this code) = Inl err"
  shows "\<exists>pre bad post out this1 e. codeLines code = pre @ bad # post
      \<and> execute_loop rt this pre [] = (Inr out, this1)
      \<and> fst (executeLine rt this1 (removeInlineComments bad)) = Inl e"
proof -
  obtain r t where l: "execute_loop rt this (codeLines code) [] = (r, t)"
    by (cases "execute_loop rt this (codeLines code) []")
  then obtain e where "r = Inl e" using assms by (cases r) (simp_all add: execute_def)
  then have "fst (execute_loop rt this (codeLines code) []) = Inl e" using l by simp
  from execute_loop_failure_decomposition[OF this] show ?thesis by blast
qed








subsection \<open>Assignment to the name of a built-in (claim C7)\<close>






subsection \<open>An assignment of a sine (claim C5)\<close>

text \<open>
  The line \<^verbatim>\<open>x = sine(f, d)\<close> through the evaluator. First \<^verbatim>\<open>generateSine\<close>: its sample
  count, the bound on its samples and the calls on which it succeeds; then the parsing of the
  call, whatever the white space; then the line.
\<close>

lemma getData_setMetadata [simp]: "getData (setMetadata s k v) = getData s"
  and getSampleRate_setMetadata [simp]: "getSampleRate (setMetadata s k v) = getSampleRate s"
  by (simp_all add: setMetadata_def)











lemma dropWhile_all: "list_all P l \<Longrightarrow> dropWhile P (l @ ys) = dropWhile P ys"
  by (induction l) simp_all

lemma trim_padded:
  assumes "s \<noteq> []" "\<not> isSpace (hd s)" "\<not> isSpace (last s)" "list_all isSpace l" "list_all isSpace r"
  shows "trim (l @ s @ r) = s"
proof -
  have 1: "dropWhile isSpace (l @ s @ r) = s @ r"
    using assms(1,2,4) by (cases s) (simp_all add: dropWhile_all)
  have "rev s \<noteq> []" "\<not> isSpace (hd (rev s))"
    using assms(1,3) by (simp_all add: hd_rev)
  then have "dropWhile isSpace (rev s) = rev s"
    by (cases "rev s") simp_all
  then have 2: "dropWhile isSpace (rev r @ rev s) = rev s"
    using assms(5) by (simp add: dropWhile_all)
  show ?thesis
    by (simp add: trim_def 1 2)
qed

lemma isToken_ends:
  assumes "isToken s"
  shows "s \<noteq> []" "\<not> isSpace (hd s)" "\<not> isSpace (last s)"
    "CHR ''='' \<notin> set s" "CHR ''('' \<notin> set s" "CHR '')'' \<notin> set s" "CHR '','' \<notin> set s"
  using assms by (auto simp: isToken_def list_all_iff)

lemma spaces_plain:
  assumes "list_all isSpace w"
  shows "CHR ''='' \<notin> set w" "CHR ''('' \<notin> set w" "CHR '')'' \<notin> set w" "CHR '','' \<notin> set w"
  using assms by (auto simp: list_all_iff isSpace_def)

lemma trim_token: "isToken s \<Longrightarrow> list_all isSpace l \<Longrightarrow> list_all isSpace r \<Longrightarrow> trim (l @ s @ r) = s"
  by (rule trim_padded) (simp_all add: isToken_ends)

lemma indexOf_from_first:
  "c \<notin> set p \<Longrightarrow> indexOf_from i (p @ c # rest) [c] = Some (i + length p)"
  by (induction p arbitrary: i) (auto simp: startsWith_def)

lemma indexOf_first: "c \<notin> set p \<Longrightarrow> indexOf (p @ c # rest) [c] = Some (length p)"
  using indexOf_from_first[of c p 0 rest] by (simp add: indexOf_def)

lemma findMatching_from_skip:
  "CHR ''('' \<notin> set s \<Longrightarrow> CHR '')'' \<notin> set s \<Longrightarrow>
   findMatching_from i count startFound (s @ rest) = findMatching_from (i + length s) count startFound rest"
  by (induction s arbitrary: i) auto

lemma findMatchingParenthesis_call:
  assumes "CHR ''('' \<notin> set p" "CHR '')'' \<notin> set p" "CHR ''('' \<notin> set inner" "CHR '')'' \<notin> set inner"
  shows "findMatchingParenthesis (p @ CHR ''('' # inner @ CHR '')'' # rest) = Inr (Suc (length p) + length inner)"
proof -
  have "findMatching_from 0 0 False (p @ CHR ''('' # inner @ CHR '')'' # rest)
      = findMatching_from (0 + length p) 0 False (CHR ''('' # inner @ CHR '')'' # rest)"
    by (rule findMatching_from_skip[OF assms(1,2)])
  also have "\<dots> = findMatching_from (Suc (length p)) 1 True (inner @ CHR '')'' # rest)"
    by simp
  also have "\<dots> = findMatching_from (Suc (length p) + length inner) 1 True (CHR '')'' # rest)"
    by (rule findMatching_from_skip[OF assms(3,4)])
  also have "\<dots> = Inr (Suc (length p) + length inner)"
    by simp
  finally show ?thesis by (simp add: findMatchingParenthesis_def)
qed

lemma substring_call:
  "substring (p @ CHR ''('' # inner @ CHR '')'' # rest) 0 (length p) = p"
  "substring (p @ CHR ''('' # inner @ CHR '')'' # rest) (Suc (length p)) (Suc (length p) + length inner) = inner"
  by (simp_all add: substring_def)

lemma parse_token:
  assumes "isToken arg" "argumentNumber rt vars arg = Some n" "list_all isSpace l" "list_all isSpace r"
  shows "parseArgumentList rt vars ((l @ arg @ r) # rest) =
     (case parseArgumentList rt vars rest of
        Inl e \<Rightarrow> Inl e
      | Inr args \<Rightarrow> Inr (ArgValue (NumberV n) # args))"
proof -
  have t: "trim (l @ arg @ r) = arg"
    using assms(1,3,4) by (rule trim_token)
  note a = isToken_ends[OF assms(1)]
  show ?thesis
  proof (cases "isNaN (rt_Number rt arg)")
    case False
    then have "n = rt_Number rt arg" using assms(2) by (simp add: argumentNumber_def)
    then show ?thesis
      using False by (simp add: parseArgumentList.simps t split: sum.splits)
  next
    case True
    then have "vars arg = Some (NumberV n)"
      using assms(2) by (auto simp: argumentNumber_def split: option.splits WorkspaceValue.splits)
    then have "evaluateExpression rt vars arg = Inr (NumberV n)"
      using True a(1,5) by (simp add: evaluateExpression.simps)
    then show ?thesis
      using True by (simp add: parseArgumentList.simps t split: sum.splits)
  qed
qed

lemma call_sine_numbers:
  "call_sine rt [ArgValue (NumberV f), ArgValue (NumberV d)]
     = (case generateSine rt f d (Some (Fin 44100)) None None of
          Inl e \<Rightarrow> Inl e
        | Inr result \<Rightarrow> Inr (SignalV (data result)))"
proof (cases "new_Float64Array rt (Math_floor (js_mul d (Fin 44100)))")
  case (Inl e)
  then show ?thesis
    by (simp add: call_sine_def call_generator_def nth_arg_def arg_Number_def generateSine_def
        generateSine_try_def or_default_def Let_def)
next
  case (Inr zeros)
  then show ?thesis
    by (simp add: call_sine_def call_generator_def nth_arg_def arg_Number_def)
qed

lemma evaluate_sine_call:
  assumes "list_all isSpace w3" "list_all isSpace w4" "list_all isSpace w5" "list_all isSpace w6"
    "list_all isSpace w7"
    and "isToken fs" "isToken ds"
    and "vars ''sine'' = Some (FunctionV BuiltinSine)"
    and "argumentNumber rt vars fs = Some f" "argumentNumber rt vars ds = Some d"
  shows "evaluateExpression rt vars
           (''sine'' @ w3 @ ''('' @ w4 @ fs @ w5 @ '','' @ w6 @ ds @ w7 @ '')'' @ rest)
    = call_sine rt [ArgValue (NumberV f), ArgValue (NumberV d)]"
proof -
  let ?p = "''sine'' @ w3"
  let ?args = "fs @ w5 @ '','' @ w6 @ ds"
  let ?inner = "w4 @ ?args @ w7"
  let ?expr = "?p @ CHR ''('' # ?inner @ CHR '')'' # rest"
  note f = isToken_ends[OF assms(6)] and d = isToken_ends[OF assms(7)]
  note s3 = spaces_plain[OF assms(1)] and s4 = spaces_plain[OF assms(2)] and s5 = spaces_plain[OF assms(3)]
    and s6 = spaces_plain[OF assms(4)] and s7 = spaces_plain[OF assms(5)]
  have same: "''sine'' @ w3 @ ''('' @ w4 @ fs @ w5 @ '','' @ w6 @ ds @ w7 @ '')'' @ rest = ?expr"
    by simp
  have p: "CHR ''('' \<notin> set ?p" "CHR '')'' \<notin> set ?p"
    using s3 by simp_all
  have inner: "CHR ''('' \<notin> set ?inner" "CHR '')'' \<notin> set ?inner"
    using s4 s5 s6 s7 f d by simp_all
  have idx: "indexOf ?expr ''('' = Some (length ?p)"
    by (rule indexOf_first[OF p(1)])
  have fmp: "findMatchingParenthesis ?expr = Inr (Suc (length ?p) + length ?inner)"
    by (rule findMatchingParenthesis_call[OF p inner])
  have name: "trim (substring ?expr 0 (length ?p)) = ''sine''"
    unfolding substring_call using trim_padded[of "''sine''" "[]" w3] assms(1)
    by (simp add: isSpace_def)
  have "?args \<noteq> []" "hd ?args = hd fs" "last ?args = last ds"
    using f(1) d(1) by simp_all
  then have "trim (w4 @ ?args @ w7) = ?args"
    using trim_padded[of ?args w4 w7] f(2) d(3) assms(2,5) by simp
  then have args: "trim (substring ?expr (Suc (length ?p)) (Suc (length ?p) + length ?inner)) = ?args"
    unfolding substring_call .
  have c5: "CHR '','' \<notin> set (fs @ w5)" using f(7) s5(4) by simp
  have c6: "CHR '','' \<notin> set (w6 @ ds)" using d(7) s6(4) by simp
  have "split CHR '','' ((fs @ w5) @ CHR '','' # (w6 @ ds)) = (fs @ w5) # split CHR '','' (w6 @ ds)"
    by (rule split_append[OF c5])
  then have pieces: "split CHR '','' ?args = [fs @ w5, w6 @ ds]"
    using split_no_separator[OF c6] by simp
  have pf: "parseArgumentList rt vars ((fs @ w5) # more) =
     (case parseArgumentList rt vars more of
        Inl e \<Rightarrow> Inl e
      | Inr args \<Rightarrow> Inr (ArgValue (NumberV f) # args))" for more
    using parse_token[OF assms(6) assms(9), of "[]" w5 more] assms(3) by simp
  have pd: "parseArgumentList rt vars ((w6 @ ds) # more) =
     (case parseArgumentList rt vars more of
        Inl e \<Rightarrow> Inl e
      | Inr args \<Rightarrow> Inr (ArgValue (NumberV d) # args))" for more
    using parse_token[OF assms(7) assms(10), of w6 "[]" more] assms(4) by simp
  have list: "parseArgumentList rt vars [fs @ w5, w6 @ ds]
      = Inr [ArgValue (NumberV f), ArgValue (NumberV d)]"
    by (simp add: pf pd parseArgumentList.simps(1))
  have ne: "?args \<noteq> []" using f(1) by simp
  have notmatrix: "''sine'' \<noteq> ''matrix''" "\<not> (''sine'' = ''chirp'' \<and> startsWith ?args ''{'')"
    by simp_all
  have parsed: "parseArguments rt vars ?args ''sine''
      = Inr [ArgValue (NumberV f), ArgValue (NumberV d)]"
    by (subst parseArguments.simps) (simp only: ne notmatrix if_False pieces list)
  have call: "evaluateFunctionCall rt vars ?expr
      = call_builtin rt BuiltinSine [ArgValue (NumberV f), ArgValue (NumberV d)]"
    by (subst evaluateFunctionCall.simps)
       (simp only: idx fmp Let_def option.case sum.case name assms(8) WorkspaceValue.case args parsed)
  have "CHR ''('' \<in> set ?expr" "?expr \<noteq> []" by simp_all
  then have "evaluateExpression rt vars ?expr = evaluateFunctionCall rt vars ?expr"
    by (subst evaluateExpression.simps) (simp only: if_True if_False)
  then show ?thesis
    unfolding same call by (simp add: call_builtin_def)
qed

lemma executeLine_sine_eq:
  assumes "list_all isSpace w0" "list_all isSpace w1" "list_all isSpace w2" "list_all isSpace w3"
    "list_all isSpace w4" "list_all isSpace w5" "list_all isSpace w6" "list_all isSpace w7"
    "list_all isSpace w8"
    and "isToken x" "isToken fs" "isToken ds"
    and "variables this ''sine'' = Some (FunctionV BuiltinSine)"
    and "argumentNumber rt (variables this) fs = Some f"
    and "argumentNumber rt (variables this) ds = Some d"
  shows "executeLine rt this
           (w0 @ x @ w1 @ ''='' @ w2 @ ''sine'' @ w3 @ ''('' @ w4 @ fs @ w5 @ '','' @ w6 @ ds @ w7 @ '')'' @ w8)
     = (case generateSine rt f d (Some (Fin 44100)) None None of
          Inl e \<Rightarrow>
            (Inl (SimulationError
                    (''Line '' @ [CHR 0x22]
                       @ w0 @ x @ w1 @ ''='' @ w2 @ ''sine'' @ w3 @ ''('' @ w4 @ fs @ w5 @ '','' @ w6 @ ds
                       @ w7 @ '')'' @ w8 @ [CHR 0x22] @ '': '' @ message e)
                    runtime (Some e)), this)
        | Inr result \<Rightarrow>
            (Inr (x @ '' = '' @ ''Signal['' @ rt_String rt (num (length (getData (data result))))
                    @ '' samples] = [''
                    @ join '', '' (map (rt_String rt) (take 5 (getData (data result)))) @ ''...]''),
             this \<lparr> variables := (variables this)(x \<mapsto> SignalV (data result)) \<rparr>))"
proof -
  let ?expr = "''sine'' @ w3 @ ''('' @ w4 @ fs @ w5 @ '','' @ w6 @ ds @ w7 @ '')''"
  let ?line = "w0 @ x @ w1 @ ''='' @ w2 @ ''sine'' @ w3 @ ''('' @ w4 @ fs @ w5 @ '','' @ w6 @ ds @ w7 @ '')'' @ w8"
  note n = isToken_ends[OF assms(10)] and f = isToken_ends[OF assms(11)] and d = isToken_ends[OF assms(12)]
  note s0 = spaces_plain[OF assms(1)] and s1 = spaces_plain[OF assms(2)] and s2 = spaces_plain[OF assms(3)]
    and s3 = spaces_plain[OF assms(4)] and s4 = spaces_plain[OF assms(5)] and s5 = spaces_plain[OF assms(6)]
    and s6 = spaces_plain[OF assms(7)] and s7 = spaces_plain[OF assms(8)] and s8 = spaces_plain[OF assms(9)]
  have same: "?line = (w0 @ x @ w1) @ CHR ''='' # (w2 @ ?expr @ w8)"
    by simp
  have 1: "CHR ''='' \<notin> set (w0 @ x @ w1)" using n(4) s0(1) s1(1) by simp
  have 2: "CHR ''='' \<notin> set (w2 @ ?expr @ w8)"
    using f(4) d(4) s2(1) s3(1) s4(1) s5(1) s6(1) s7(1) s8(1) by simp
  have sp: "split CHR ''='' ?line = (w0 @ x @ w1) # (w2 @ ?expr @ w8) # []"
    unfolding same using split_append[OF 1, of "w2 @ ?expr @ w8"] split_no_separator[OF 2] by simp
  have tx: "trim (w0 @ x @ w1) = x"
    using assms(10,1,2) by (rule trim_token)
  have "?expr \<noteq> []" "hd ?expr = CHR ''s''" "last ?expr = CHR '')''"
    by simp_all
  then have te: "trim (w2 @ ?expr @ w8) = ?expr"
    using trim_padded[of ?expr w2 w8] assms(3,9) by (simp add: isSpace_def)
  have ev: "evaluateExpression rt (variables this) ?expr
      = call_sine rt [ArgValue (NumberV f), ArgValue (NumberV d)]"
    using evaluate_sine_call[OF assms(4-8) assms(11-15), of "[]"] by simp
  have ne: "?line \<noteq> []" "x \<noteq> []" "?expr \<noteq> []"
    using n(1) by simp_all
  have fmt: "formatOutput rt (SignalV s)
      = Inr (''Signal['' @ rt_String rt (num (length (getData s))) @ '' samples] = [''
                 @ join '', '' (map (rt_String rt) (take 5 (getData s))) @ ''...]'')" for s
    by (simp add: formatOutput_def)
  have attempt: "executeLine_try rt this ?line
     = (case generateSine rt f d (Some (Fin 44100)) None None of
          Inl e \<Rightarrow> (Inl e, this)
        | Inr result \<Rightarrow>
            (Inr (x @ '' = '' @ ''Signal['' @ rt_String rt (num (length (getData (data result))))
                    @ '' samples] = [''
                    @ join '', '' (map (rt_String rt) (take 5 (getData (data result)))) @ ''...]''),
             this \<lparr> variables := (variables this)(x \<mapsto> SignalV (data result)) \<rparr>))"
    unfolding executeLine_try_assignment[OF sp] tx te ev call_sine_numbers
    using ne(2,3) by (simp add: fmt split: sum.splits)
  show ?thesis
    unfolding executeLine_def attempt using ne(1)
    by (simp split: sum.splits)
qed


text \<open>
  The same line when \<^verbatim>\<open>Math.floor(d * 44100)\<close> is no array length (a negative or an infinite
  duration, or a count of \<open>2\<^sup>5\<^sup>3\<close> or more): it fails, and binds nothing.
\<close>

lemma executeLine_sine_no_allocation:
  assumes "list_all isSpace w0" "list_all isSpace w1" "list_all isSpace w2" "list_all isSpace w3"
    "list_all isSpace w4" "list_all isSpace w5" "list_all isSpace w6" "list_all isSpace w7"
    "list_all isSpace w8"
    and "isToken x" "isToken fs" "isToken ds"
    and "variables this ''sine'' = Some (FunctionV BuiltinSine)"
    and "argumentNumber rt (variables this) fs = Some f"
    and "argumentNumber rt (variables this) ds = Some d"
    and "typedArrayLength (Math_floor (js_mul d (Fin 44100))) = None"
  shows "executeLine rt this
           (w0 @ x @ w1 @ ''='' @ w2 @ ''sine'' @ w3 @ ''('' @ w4 @ fs @ w5 @ '','' @ w6 @ ds @ w7 @ '')'' @ w8)
     = (Inl (SimulationError
               (''Line '' @ [CHR 0x22]
                  @ w0 @ x @ w1 @ ''='' @ w2 @ ''sine'' @ w3 @ ''('' @ w4 @ fs @ w5 @ '','' @ w6 @ ds
                  @ w7 @ '')'' @ w8 @ [CHR 0x22] @ '': Failed to generate sine signal'')
               runtime
               (Some (SimulationError ''Failed to generate sine signal'' computation
                        (Some (RangeError ''Invalid typed array length''))))), this)"
proof -
  have "generateSine rt f d (Some (Fin 44100)) None None
      = Inl (SimulationError ''Failed to generate sine signal'' computation
               (Some (RangeError ''Invalid typed array length'')))"
    using assms(16)
    by (simp add: generateSine_def generateSine_try_def or_default_def Let_def new_Float64Array_def)
  then show ?thesis
    unfolding executeLine_sine_eq[OF assms(1-15)] by simp
qed



end
